theory Spec2Isabelle
  imports Complex_Main "HOL-Library.Multiset"
begin

section \<open>Python values\<close>

text \<open>
  The program \<^verbatim>\<open>PPCs_vcz.py\<close> computes with Python floats, the binary64 numbers of
  IEEE 754. A float is modelled as a finite value, one of the two infinities, or NaN. A
  finite value is carried as the real number it denotes; every product and quotient of
  finite values is rounded to the nearest binary64 number, ties to even, and overflows to
  an infinity, as the hardware does. The two zeros are one value: the program never tells
  them apart.
\<close>

datatype pyfloat = Fin real | PInf | NInf | NaN

datatype py_error =
    KeyError string
  | ZeroDivisionError
  | ModelException string

subsection \<open>Rounding to binary64\<close>

text \<open>Rounding to the nearest integer, a tie going to the even neighbour.\<close>

definition round_half_even :: "real \<Rightarrow> int" where
  "round_half_even x =
     (let f = \<lfloor>x\<rfloor> in
      if x - of_int f < 1 / 2 then f
      else if 1 / 2 < x - of_int f then f + 1
      else if even f then f else f + 1)"

text \<open>
  The exponent of the unit in the last place of \<open>x\<close>: a binary64 number has 53
  significant bits, and below \<open>2 powr - 1022\<close> (the subnormal numbers) the unit stays
  \<open>2 powr - 1074\<close>.
\<close>

definition ulp_exp :: "real \<Rightarrow> int" where
  "ulp_exp x = max \<lfloor>log 2 \<bar>x\<bar>\<rfloor> (- 1022) - 52"

text \<open>The multiple of the unit in the last place nearest to \<open>x\<close>.\<close>

definition round_to_ulp :: "real \<Rightarrow> real" where
  "round_to_ulp x =
     (let u = 2 powr of_int (ulp_exp x) in of_int (round_half_even (x / u)) * u)"

text \<open>A rounded value of magnitude \<open>2 powr 1024\<close> or more is no binary64 number: it is an infinity.\<close>

definition double_overflow :: real where
  "double_overflow = 2 powr 1024"

definition double_round :: "real \<Rightarrow> pyfloat" where
  "double_round x =
     (if x = 0 then Fin 0
      else
        let y = round_to_ulp x
        in if double_overflow \<le> y then PInf
           else if y \<le> - double_overflow then NInf
           else Fin y)"

text \<open>
  A float literal of the source, such as \<^verbatim>\<open>0.1\<close> or \<^verbatim>\<open>24.0\<close>, denotes the binary64 number
  nearest to its decimal value.
\<close>

definition float_lit :: "real \<Rightarrow> pyfloat" where
  "float_lit x = double_round x"

subsection \<open>Comparisons and arithmetic\<close>

text \<open>Python's \<^verbatim>\<open>a > b\<close> on floats: False as soon as one side is NaN.\<close>

fun pf_gt :: "pyfloat \<Rightarrow> pyfloat \<Rightarrow> bool" where
  "pf_gt NaN b = False"
| "pf_gt a NaN = False"
| "pf_gt (Fin a) (Fin b) = (b < a)"
| "pf_gt (Fin a) PInf = False"
| "pf_gt (Fin a) NInf = True"
| "pf_gt PInf PInf = False"
| "pf_gt PInf b = True"
| "pf_gt NInf b = False"

text \<open>Python's \<^verbatim>\<open>a == b\<close> on floats: NaN equals nothing, itself included.\<close>

fun pf_eq :: "pyfloat \<Rightarrow> pyfloat \<Rightarrow> bool" where
  "pf_eq NaN b = False"
| "pf_eq a NaN = False"
| "pf_eq a b = (a = b)"

definition pf_lt :: "pyfloat \<Rightarrow> pyfloat \<Rightarrow> bool" where
  "pf_lt a b = pf_gt b a"

definition pf_ge :: "pyfloat \<Rightarrow> pyfloat \<Rightarrow> bool" where
  "pf_ge a b = (pf_gt a b \<or> pf_eq a b)"

definition pf_le :: "pyfloat \<Rightarrow> pyfloat \<Rightarrow> bool" where
  "pf_le a b = pf_ge b a"

text \<open>
  Python's two-argument \<^verbatim>\<open>max(a, b)\<close>: the first argument is kept unless the second
  compares greater. With a NaN first argument no second argument compares greater.
\<close>

definition pf_max :: "pyfloat \<Rightarrow> pyfloat \<Rightarrow> pyfloat" where
  "pf_max a b = (if pf_gt b a then b else a)"

text \<open>Python's \<^verbatim>\<open>a * b\<close> on floats: the exact product, rounded.\<close>

fun pf_mul :: "pyfloat \<Rightarrow> pyfloat \<Rightarrow> pyfloat" where
  "pf_mul NaN b = NaN"
| "pf_mul a NaN = NaN"
| "pf_mul (Fin a) (Fin b) = double_round (a * b)"
| "pf_mul (Fin a) PInf = (if a = 0 then NaN else if 0 < a then PInf else NInf)"
| "pf_mul (Fin a) NInf = (if a = 0 then NaN else if 0 < a then NInf else PInf)"
| "pf_mul PInf (Fin b) = (if b = 0 then NaN else if 0 < b then PInf else NInf)"
| "pf_mul NInf (Fin b) = (if b = 0 then NaN else if 0 < b then NInf else PInf)"
| "pf_mul PInf PInf = PInf"
| "pf_mul PInf NInf = NInf"
| "pf_mul NInf PInf = NInf"
| "pf_mul NInf NInf = PInf"

text \<open>
  Python's \<^verbatim>\<open>a / b\<close> on floats: a zero divisor raises \<^verbatim>\<open>ZeroDivisionError\<close> whatever
  the dividend is; otherwise the quotient follows IEEE 754: the exact quotient, rounded.
\<close>

fun pf_quot :: "pyfloat \<Rightarrow> pyfloat \<Rightarrow> pyfloat" where
  "pf_quot NaN b = NaN"
| "pf_quot a NaN = NaN"
| "pf_quot (Fin a) (Fin b) = double_round (a / b)"
| "pf_quot (Fin a) PInf = Fin 0"
| "pf_quot (Fin a) NInf = Fin 0"
| "pf_quot PInf (Fin b) = (if 0 < b then PInf else NInf)"
| "pf_quot NInf (Fin b) = (if 0 < b then NInf else PInf)"
| "pf_quot PInf b = NaN"
| "pf_quot NInf b = NaN"

definition pf_truediv :: "pyfloat \<Rightarrow> pyfloat \<Rightarrow> py_error + pyfloat" where
  "pf_truediv a b = (if b = Fin 0 then Inl ZeroDivisionError else Inr (pf_quot a b))"

section \<open>Pharmacokinetic calculation\<close>

text \<open>
  \<^verbatim>\<open>
  def calculate_theoretical_conc(pred_cl, dose_mg_per_day):
      pred_cl_safe = max(float(pred_cl), 0.1)
      return float(dose_mg_per_day) / (24.0 * pred_cl_safe)
  \<close>
  Both arguments are floats already, so \<^verbatim>\<open>float(...)\<close> returns them unchanged.
\<close>

definition calculate_theoretical_conc :: "pyfloat \<Rightarrow> pyfloat \<Rightarrow> py_error + pyfloat" where
  "calculate_theoretical_conc pred_cl dose_mg_per_day =
     (let pred_cl_safe = pf_max pred_cl (float_lit 0.1)
      in pf_truediv dose_mg_per_day (pf_mul (float_lit 24.0) pred_cl_safe))"

section \<open>Data model\<close>

text \<open>A cell of the feature row holds a Python int (the two encoded fields) or a float.\<close>

datatype pyval = PyInt int | PyFloat pyfloat

text \<open>
  A one-row \<^verbatim>\<open>pandas.DataFrame\<close>: its columns in order, each with its name and the
  value of the single row.
\<close>

type_synonym dataframe = "(string \<times> pyval) list"

text \<open>
  The values the sidebar widgets return in one run of the script. A
  \<^verbatim>\<open>st.number_input\<close> with \<^verbatim>\<open>min_value\<close> and \<^verbatim>\<open>max_value\<close> returns a finite float, a
  \<^verbatim>\<open>st.selectbox\<close> returns one of its options.
\<close>

record sidebar =
  daydose :: real
  time_val :: real
  age :: real
  weight :: real
  alb :: real
  crp :: real
  tbil :: real
  sex_input :: string
  geno_label :: string

definition sex_options :: "string list" where
  "sex_options = [''Male'', ''Female'']"

definition geno_options :: "string list" where
  "geno_options =
     [''NM (Normal metabolizer)'', ''IM (Intermediate metabolizer)'', ''PM (Poor metabolizer)'']"

text \<open>The bounds and options the widgets of section 3 of the script enforce.\<close>

definition in_widget_range :: "sidebar \<Rightarrow> bool" where
  "in_widget_range s =
     (10 \<le> daydose s \<and> daydose s \<le> 800 \<and>
      0 \<le> time_val s \<and> time_val s \<le> 60 \<and>
      0 \<le> age s \<and> age s \<le> 120 \<and>
      1 \<le> weight s \<and> weight s \<le> 200 \<and>
      5 \<le> alb s \<and> alb s \<le> 60 \<and>
      0 \<le> crp s \<and> crp s \<le> 300 \<and>
      0 \<le> tbil s \<and> tbil s \<le> 500 \<and>
      sex_input s \<in> set sex_options \<and>
      geno_label s \<in> set geno_options)"

text \<open>
  The two pickled models are not part of the repository: they are parameters. Each field
  is the call \<^verbatim>\<open>predict(...)[0]\<close>, which returns a float or raises.
\<close>

record models =
  model_cl :: "dataframe \<Rightarrow> py_error + pyfloat"
  calibrator :: "pyfloat \<Rightarrow> py_error + pyfloat"

section \<open>Feature assembly\<close>

definition features_cl :: "string list" where
  "features_cl = [''CRP'', ''ALB'', ''GenotypingValue'', ''Age'', ''Sex'', ''TBIL'', ''Weight'']"

text \<open>\<^verbatim>\<open>sex = 1 if sex_input == "Male" else 2\<close>\<close>

definition sex :: "string \<Rightarrow> int" where
  "sex si = (if si = ''Male'' then 1 else 2)"

definition geno_map :: "(string \<times> int) list" where
  "geno_map =
     [(''NM (Normal metabolizer)'', 1),
      (''IM (Intermediate metabolizer)'', 2),
      (''PM (Poor metabolizer)'', 3)]"

text \<open>\<^verbatim>\<open>GenotypingValue = geno_map[geno_label]\<close>: a missing key raises \<^verbatim>\<open>KeyError\<close>.\<close>

definition GenotypingValue :: "string \<Rightarrow> py_error + int" where
  "GenotypingValue gl =
     (case map_of geno_map gl of None \<Rightarrow> Inl (KeyError gl) | Some v \<Rightarrow> Inr v)"

text \<open>
  \<^verbatim>\<open>pd.DataFrame([d], columns=cols)\<close> for one dict \<^verbatim>\<open>d\<close>: the frame has exactly the
  columns \<^verbatim>\<open>cols\<close>, in that order; a column that is no key of \<^verbatim>\<open>d\<close> is filled with NaN.
  The dict is the list of its items in insertion order.
\<close>

definition DataFrame_row :: "(string \<times> pyval) list \<Rightarrow> string list \<Rightarrow> dataframe" where
  "DataFrame_row d cols =
     map (\<lambda>c. (c, case map_of d c of None \<Rightarrow> PyFloat NaN | Some v \<Rightarrow> v)) cols"

text \<open>The dict literal of the script, its items in the order they are written.\<close>

definition row_dict :: "sidebar \<Rightarrow> int \<Rightarrow> (string \<times> pyval) list" where
  "row_dict s g =
     [(''GenotypingValue'', PyInt g),
      (''Weight'', PyFloat (Fin (weight s))),
      (''Sex'', PyInt (sex (sex_input s))),
      (''CRP'', PyFloat (Fin (crp s))),
      (''ALB'', PyFloat (Fin (alb s))),
      (''Age'', PyFloat (Fin (age s))),
      (''TBIL'', PyFloat (Fin (tbil s)))]"

definition input_row :: "sidebar \<Rightarrow> int \<Rightarrow> dataframe" where
  "input_row s g = DataFrame_row (row_dict s g) features_cl"

section \<open>Estimation\<close>

record estimate =
  pred_cl :: pyfloat
  theory_conc :: pyfloat
  pred_conc :: pyfloat

text \<open>
  Steps 1 to 3 of the estimation block. An exception of a step leaves the block at once.
  \<^verbatim>\<open>
  pred_cl = model_cl.predict(input_row)[0]
  theory_conc = calculate_theoretical_conc(pred_cl, daydose)
  pred_conc = calibrator.predict(np.array(theory_conc).reshape(-1, 1))[0]
  pred_conc = max(float(pred_conc), 0.1)
  \<close>
\<close>

definition estimation :: "models \<Rightarrow> sidebar \<Rightarrow> dataframe \<Rightarrow> py_error + estimate" where
  "estimation m s row =
     (case model_cl m row of
        Inl e \<Rightarrow> Inl e
      | Inr cl \<Rightarrow>
          (case calculate_theoretical_conc cl (Fin (daydose s)) of
             Inl e \<Rightarrow> Inl e
           | Inr tc \<Rightarrow>
               (case calibrator m tc of
                  Inl e \<Rightarrow> Inl e
                | Inr pc \<Rightarrow>
                    Inr \<lparr>pred_cl = cl, theory_conc = tc, pred_conc = pf_max pc (float_lit 0.1)\<rparr>)))"

text \<open>
  What the block renders, in order. A number shown through a format such as
  \<^verbatim>\<open>{pred_cl:.3f}\<close> is kept as the number with its count of decimals; \<^verbatim>\<open>Write\<close> holds the
  text before the number, the number and the text after it. The \<^verbatim>\<open>help\<close> tooltip of the
  second metric and the column layout are left out, and the multiplication sign in the
  third-last line is written x.
\<close>

datatype ui =
    Subheader string
  | Metric string nat pyfloat
  | Caption string
  | Markdown string
  | Write string nat pyfloat string
  | Warning string
  | Success string

text \<open>The two advisory messages: \<^verbatim>\<open>st.warning\<close> before day 7, \<^verbatim>\<open>st.success\<close> from day 7 on.\<close>

definition BeforeSteadyState :: ui where
  "BeforeSteadyState = Warning (''This estimate is based on a sample collected before steady-state '' @
     ''conditions are typically achieved. Interpretation should be made with caution.'')"

definition NearSteadyState :: ui where
  "NearSteadyState = Success (''The sampling time is consistent with near steady-state conditions '' @
     ''used during model calibration.'')"

definition advisory :: "pyfloat \<Rightarrow> ui" where
  "advisory t = (if pf_lt t (Fin 7) then BeforeSteadyState else NearSteadyState)"

definition render :: "sidebar \<Rightarrow> estimate \<Rightarrow> ui list" where
  "render s r =
     [Subheader ''Estimated clearance'',
      Metric ''Estimated CL/F (L/h)'' 3 (pred_cl r),
      Caption (''Clearance is estimated from genotype and clinical covariates. '' @
        ''Dose is not included in this step.''),
      Subheader ''Estimated plasma concentration'',
      Metric ''Voriconazole concentration (mg/L)'' 3 (pred_conc r),
      Markdown ''---'',
      Subheader ''Model interpretation'',
      Write ''Daily dose: **'' 1 (Fin (daydose s)) '' mg/day**'',
      Write ''Theoretical concentration (dose / [24 x CL]): **'' 3 (theory_conc r) '' mg/L**'',
      Write ''Time since initiation of therapy: **'' 1 (Fin (time_val s)) '' days**'',
      advisory (Fin (time_val s))]"

text \<open>
  The block under \<^verbatim>\<open>if st.button(...)\<close>: what it has rendered when it ends, and the
  exception that ended it, if any. Every rendering call comes after the three steps, so a
  step that raises leaves the block with nothing rendered.
\<close>

definition estimation_block :: "models \<Rightarrow> sidebar \<Rightarrow> dataframe \<Rightarrow> ui list \<times> py_error option" where
  "estimation_block m s row =
     (case estimation m s row of
        Inl e \<Rightarrow> ([], Some e)
      | Inr r \<Rightarrow> (render s r, None))"

text \<open>
  Sections 3 to 5 of the script in one run: the sidebar values \<open>s\<close>, and whether the
  button was pressed.
\<close>

definition app :: "models \<Rightarrow> sidebar \<Rightarrow> bool \<Rightarrow> ui list \<times> py_error option" where
  "app m s pressed =
     (case GenotypingValue (geno_label s) of
        Inl e \<Rightarrow> ([], Some e)
      | Inr g \<Rightarrow> (if pressed then estimation_block m s (input_row s g) else ([], None)))"

section \<open>Concrete runs\<close>

text \<open>
  The values the widgets show when the page is first loaded (their \<^verbatim>\<open>value=\<close> arguments
  and the first option of each select box).
\<close>

definition default_sidebar :: sidebar where
  "default_sidebar =
     \<lparr>daydose = 400.0, time_val = 7.0, age = 50.0, weight = 60.0, alb = 32.0, crp = 30.0,
      tbil = 12.0, sex_input = ''Male'', geno_label = ''NM (Normal metabolizer)''\<rparr>"

text \<open>A pair of models that answer the same whatever they are given.\<close>

definition const_models :: "py_error + pyfloat \<Rightarrow> py_error + pyfloat \<Rightarrow> models" where
  "const_models a b = \<lparr>model_cl = (\<lambda>row. a), calibrator = (\<lambda>x. b)\<rparr>"

text \<open>
  A pair of models whose clearance model, as a model trained on named columns does,
  refuses a frame whose column names are not the training columns in the training order.
\<close>

definition checking_models :: "pyfloat \<Rightarrow> pyfloat \<Rightarrow> models" where
  "checking_models cl pc =
     \<lparr>model_cl = (\<lambda>row. if map fst row = features_cl then Inr cl
                        else Inl (ModelException ''feature_names mismatch'')),
      calibrator = (\<lambda>x. Inr pc)\<rparr>"

section \<open>Rounding\<close>

lemma round_half_even_ge: "x - 1 / 2 \<le> of_int (round_half_even x)"
  unfolding round_half_even_def Let_def by (auto; linarith)

lemma round_half_even_le: "of_int (round_half_even x) \<le> x + 1 / 2"
  unfolding round_half_even_def Let_def by (auto; linarith)

lemma round_half_even_int_le: "of_int k \<le> x \<Longrightarrow> k \<le> round_half_even x"
  unfolding round_half_even_def Let_def by (auto simp: le_floor_iff; linarith)

lemma round_half_even_le_int: "x \<le> of_int k \<Longrightarrow> round_half_even x \<le> k"
  unfolding round_half_even_def Let_def by (auto simp: floor_le_iff; linarith)

lemma two_powr_int: "0 \<le> n \<Longrightarrow> (2::real) powr of_int n = of_int (2 ^ nat n)"
  by (simp add: powr_real_of_int)

lemma ulp_exp_eq:
  assumes "0 < x" "2 powr of_int e \<le> x" "x < 2 powr (of_int e + 1)"
  shows "ulp_exp x = max e (- 1022) - 52"
proof -
  have "\<lfloor>log 2 x\<rfloor> = e"
    using assms by (subst floor_log_eq_powr_iff) auto
  then show ?thesis using assms(1) by (simp add: ulp_exp_def)
qed

lemma binade_bounds:
  assumes "0 < x"
  shows "2 powr of_int \<lfloor>log 2 x\<rfloor> \<le> x" "x < 2 powr (of_int \<lfloor>log 2 x\<rfloor> + 1)"
  using assms floor_log_eq_powr_iff [of x 2 "\<lfloor>log 2 x\<rfloor>"] by auto

lemma round_to_ulp_error:
  "\<bar>round_to_ulp x - x\<bar> \<le> 2 powr of_int (ulp_exp x) / 2"
proof -
  let ?u = "(2::real) powr of_int (ulp_exp x)"
  let ?a = "real_of_int (round_half_even (x / ?u))"
  have u: "0 < ?u" by simp
  have "\<bar>?a - x / ?u\<bar> \<le> 1 / 2"
    using round_half_even_ge [of "x / ?u"] round_half_even_le [of "x / ?u"] by linarith
  then have "\<bar>?a - x / ?u\<bar> * ?u \<le> 1 / 2 * ?u"
    using u by (intro mult_right_mono) auto
  moreover have "\<bar>?a - x / ?u\<bar> * ?u = \<bar>(?a - x / ?u) * ?u\<bar>"
    using u by (simp add: abs_mult)
  moreover have "(?a - x / ?u) * ?u = ?a * ?u - x"
    using u by (simp add: left_diff_distrib)
  moreover have "round_to_ulp x = ?a * ?u"
    by (simp add: round_to_ulp_def Let_def)
  ultimately show ?thesis by simp
qed

lemma two_powr_split:
  assumes "j \<le> k"
  shows "(2::real) powr of_int k = of_int (2 ^ nat (k - j)) * 2 powr of_int j"
proof -
  have "(2::real) powr of_int k = 2 powr of_int (k - j) * 2 powr of_int j"
    by (simp add: powr_add [symmetric])
  also have "(2::real) powr of_int (k - j) = of_int (2 ^ nat (k - j))"
    using assms by (intro two_powr_int) simp
  finally show ?thesis .
qed

lemma round_to_ulp_ge:
  assumes "2 powr of_int k \<le> x" "ulp_exp x \<le> k"
  shows "2 powr of_int k \<le> round_to_ulp x"
proof -
  let ?j = "ulp_exp x"
  let ?u = "(2::real) powr of_int ?j"
  let ?K = "(2::int) ^ nat (k - ?j)"
  have eq: "(2::real) powr of_int k = of_int ?K * ?u"
    using assms(2) by (rule two_powr_split)
  have "of_int ?K * ?u / ?u \<le> x / ?u"
    using assms(1) unfolding eq by (intro divide_right_mono) auto
  then have "of_int ?K \<le> x / ?u" by simp
  then have "?K \<le> round_half_even (x / ?u)"
    by (rule round_half_even_int_le)
  then have "real_of_int ?K \<le> real_of_int (round_half_even (x / ?u))"
    by (simp only: of_int_le_iff)
  then have "real_of_int ?K * ?u \<le> real_of_int (round_half_even (x / ?u)) * ?u"
    by (rule mult_right_mono) simp
  moreover have "round_to_ulp x = real_of_int (round_half_even (x / ?u)) * ?u"
    by (simp add: round_to_ulp_def Let_def)
  ultimately show ?thesis using eq by linarith
qed

lemma round_to_ulp_le:
  assumes "x \<le> 2 powr of_int k" "ulp_exp x \<le> k"
  shows "round_to_ulp x \<le> 2 powr of_int k"
proof -
  let ?j = "ulp_exp x"
  let ?u = "(2::real) powr of_int ?j"
  let ?K = "(2::int) ^ nat (k - ?j)"
  have eq: "(2::real) powr of_int k = of_int ?K * ?u"
    using assms(2) by (rule two_powr_split)
  have "x / ?u \<le> of_int ?K * ?u / ?u"
    using assms(1) unfolding eq by (intro divide_right_mono) auto
  then have "x / ?u \<le> of_int ?K" by simp
  then have "round_half_even (x / ?u) \<le> ?K"
    by (rule round_half_even_le_int)
  then have "real_of_int (round_half_even (x / ?u)) \<le> real_of_int ?K"
    by (simp only: of_int_le_iff)
  then have "real_of_int (round_half_even (x / ?u)) * ?u \<le> real_of_int ?K * ?u"
    by (rule mult_right_mono) simp
  moreover have "round_to_ulp x = real_of_int (round_half_even (x / ?u)) * ?u"
    by (simp add: round_to_ulp_def Let_def)
  ultimately show ?thesis using eq by linarith
qed

lemma round_half_even_mono: "x \<le> y \<Longrightarrow> round_half_even x \<le> round_half_even y"
proof -
  assume xy: "x \<le> y"
  have fl: "\<lfloor>x\<rfloor> \<le> \<lfloor>y\<rfloor>" using xy by (rule floor_mono)
  show ?thesis
  proof (cases "\<lfloor>x\<rfloor> = \<lfloor>y\<rfloor>")
    case True
    then show ?thesis using xy
      unfolding round_half_even_def Let_def by (auto; linarith)
  next
    case False
    then have "\<lfloor>x\<rfloor> + 1 \<le> \<lfloor>y\<rfloor>" using fl by simp
    moreover have "round_half_even x \<le> \<lfloor>x\<rfloor> + 1"
      unfolding round_half_even_def Let_def by auto
    moreover have "\<lfloor>y\<rfloor> \<le> round_half_even y"
      unfolding round_half_even_def Let_def by auto
    ultimately show ?thesis by linarith
  qed
qed

lemma round_half_even_tie_up: "of_int k - 1 / 2 \<le> x \<Longrightarrow> even k \<Longrightarrow> k \<le> round_half_even x"
proof -
  assume a: "of_int k - 1 / 2 \<le> x" and e: "even k"
  have "round_half_even (of_int k - 1 / 2) = k"
  proof -
    have f: "\<lfloor>real_of_int k - 1 / 2\<rfloor> = k - 1"
      by (subst floor_eq_iff) simp
    have "odd (k - 1)" using e by simp
    then show ?thesis
      unfolding round_half_even_def Let_def f by simp
  qed
  then show ?thesis using round_half_even_mono [OF a] by simp
qed

lemma ulp_exp_pos:
  assumes "0 < x"
  shows "ulp_exp x = max \<lfloor>log 2 x\<rfloor> (- 1022) - 52"
  using assms by (simp add: ulp_exp_def)

lemma ulp_exp_mono:
  assumes "0 < x" "x \<le> y"
  shows "ulp_exp x \<le> ulp_exp y"
proof -
  have "log 2 x \<le> log 2 y" using assms by simp
  then have "\<lfloor>log 2 x\<rfloor> \<le> \<lfloor>log 2 y\<rfloor>" by (rule floor_mono)
  then show ?thesis using assms by (simp add: ulp_exp_pos)
qed

lemma ulp_exp_ge: "- 1074 \<le> ulp_exp x"
  by (simp add: ulp_exp_def)

lemma round_to_ulp_nonneg: "0 \<le> x \<Longrightarrow> 0 \<le> round_to_ulp x"
proof -
  assume "0 \<le> x"
  then have "of_int 0 \<le> x / 2 powr of_int (ulp_exp x)" by simp
  then have "0 \<le> round_half_even (x / 2 powr of_int (ulp_exp x))"
    by (rule round_half_even_int_le)
  then show ?thesis by (simp add: round_to_ulp_def Let_def)
qed

text \<open>Powers of two from the smallest subnormal on are kept by rounding, as lower bounds.\<close>

lemma round_to_ulp_ge_pow:
  assumes x: "0 < x" and k: "2 powr of_int k \<le> x" and k': "- 1074 \<le> k"
  shows "2 powr of_int k \<le> round_to_ulp x"
proof (cases "ulp_exp x \<le> k")
  case True
  then show ?thesis using k by (intro round_to_ulp_ge)
next
  case False
  define e where "e = \<lfloor>log 2 x\<rfloor>"
  have j: "ulp_exp x = max e (- 1022) - 52" unfolding e_def using x by (rule ulp_exp_pos)
  have "k < ulp_exp x" using False by simp
  then have e: "ulp_exp x = e - 52" "k < e" using j k' by linarith+
  have "2 powr of_int e \<le> x" unfolding e_def using binade_bounds(1) [OF x] .
  then have "2 powr of_int e \<le> round_to_ulp x"
    using e(1) by (intro round_to_ulp_ge) auto
  moreover have "(2::real) powr of_int k \<le> 2 powr of_int e"
    using e(2) by (intro powr_mono) auto
  ultimately show ?thesis by linarith
qed

lemma round_to_ulp_le_pow:
  assumes x: "0 < x" and k: "x \<le> 2 powr of_int k" and k': "- 1074 \<le> k"
  shows "round_to_ulp x \<le> 2 powr of_int k"
proof -
  define e where "e = \<lfloor>log 2 x\<rfloor>"
  have "log 2 x \<le> log 2 (2 powr of_int k)" using x k by (subst log_le_cancel_iff) auto
  then have "log 2 x \<le> of_int k" by simp
  then have "e \<le> k" unfolding e_def by (simp add: floor_le_iff)
  moreover have "ulp_exp x = max e (- 1022) - 52" unfolding e_def using x by (rule ulp_exp_pos)
  ultimately have "ulp_exp x \<le> k" using k' by linarith
  then show ?thesis using k by (intro round_to_ulp_le)
qed

lemma round_to_ulp_mono:
  assumes x: "0 < x" and xy: "x \<le> y"
  shows "round_to_ulp x \<le> round_to_ulp y"
proof (cases "ulp_exp x = ulp_exp y")
  case True
  let ?u = "(2::real) powr of_int (ulp_exp x)"
  have "x / ?u \<le> y / ?u" using xy by (intro divide_right_mono) auto
  then have "round_half_even (x / ?u) \<le> round_half_even (y / ?u)"
    by (rule round_half_even_mono)
  then have "real_of_int (round_half_even (x / ?u)) \<le> real_of_int (round_half_even (y / ?u))"
    by (simp only: of_int_le_iff)
  then have "real_of_int (round_half_even (x / ?u)) * ?u \<le> real_of_int (round_half_even (y / ?u)) * ?u"
    by (rule mult_right_mono) simp
  then show ?thesis using True by (simp add: round_to_ulp_def Let_def)
next
  case False
  have y: "0 < y" using x xy by linarith
  define e where "e = \<lfloor>log 2 x\<rfloor>"
  define e' where "e' = \<lfloor>log 2 y\<rfloor>"
  have jx: "ulp_exp x = max e (- 1022) - 52" unfolding e_def using x by (rule ulp_exp_pos)
  have jy: "ulp_exp y = max e' (- 1022) - 52" unfolding e'_def using y by (rule ulp_exp_pos)
  have "ulp_exp x < ulp_exp y" using False ulp_exp_mono [OF x xy] by simp
  then have e: "e < e'" "- 1022 < e'" using jx jy by linarith+
  define k where "k = max (e + 1) (- 1021)"
  have "x \<le> 2 powr of_int (e + 1)" unfolding e_def using binade_bounds(2) [OF x] by simp
  also have "(2::real) powr of_int (e + 1) \<le> 2 powr of_int k"
    unfolding k_def by (intro powr_mono) auto
  finally have "x \<le> 2 powr of_int k" .
  moreover have "- 1074 \<le> k" unfolding k_def by simp
  ultimately have "round_to_ulp x \<le> 2 powr of_int k" using x by (intro round_to_ulp_le_pow)
  moreover have "(2::real) powr of_int k \<le> 2 powr of_int e'"
    using e unfolding k_def by (intro powr_mono) auto
  moreover have "2 powr of_int e' \<le> round_to_ulp y"
  proof (rule round_to_ulp_ge)
    show "2 powr of_int e' \<le> y" unfolding e'_def using binade_bounds(1) [OF y] .
    show "ulp_exp y \<le> e'" using jy e(2) by linarith
  qed
  ultimately show ?thesis by linarith
qed

text \<open>In the normal range the relative error of rounding is at most \<open>1 / 2 ^ 53\<close>.\<close>

lemma round_to_ulp_relative:
  assumes "2 powr (- 1022) \<le> x"
  shows "\<bar>round_to_ulp x - x\<bar> \<le> x / 2 ^ 53"
proof -
  have x: "0 < x" using assms by (smt (verit) powr_gt_zero)
  define e where "e = \<lfloor>log 2 x\<rfloor>"
  have "log 2 (2 powr (- 1022)) \<le> log 2 x" using assms x by (subst log_le_cancel_iff) auto
  then have "- 1022 \<le> log 2 x" by simp
  then have "- 1022 \<le> e" unfolding e_def by (simp add: le_floor_iff)
  moreover have "ulp_exp x = max e (- 1022) - 52" unfolding e_def using x by (rule ulp_exp_pos)
  ultimately have j: "ulp_exp x = e - 52" by linarith
  have "(2::real) powr of_int (ulp_exp x) = 2 powr of_int e / 2 ^ 52"
    unfolding j by (simp add: powr_diff)
  also have "\<dots> \<le> x / 2 ^ 52"
    unfolding e_def using binade_bounds(1) [OF x] by (intro divide_right_mono) auto
  finally have "2 powr of_int (ulp_exp x) / 2 \<le> x / 2 ^ 52 / 2" by simp
  moreover have "x / 2 ^ 52 / 2 = x / 2 ^ 53" by simp
  ultimately show ?thesis using round_to_ulp_error [of x] by linarith
qed

lemma double_overflow_pos: "0 < double_overflow"
  by (simp add: double_overflow_def)

lemma double_round_pos_cases:
  assumes "0 < x"
  shows "double_round x = PInf \<and> double_overflow \<le> round_to_ulp x \<or>
         double_round x = Fin (round_to_ulp x) \<and> round_to_ulp x < double_overflow"
proof -
  have "0 \<le> round_to_ulp x" using assms by (intro round_to_ulp_nonneg) simp
  then have "\<not> round_to_ulp x \<le> - double_overflow" using double_overflow_pos by linarith
  then show ?thesis using assms by (auto simp: double_round_def Let_def)
qed

lemma double_round_finite:
  assumes "0 < x" "x \<le> 2 powr 1023"
  shows "double_round x = Fin (round_to_ulp x)"
proof -
  have "x \<le> 2 powr of_int 1023" using assms(2) by simp
  then have "round_to_ulp x \<le> 2 powr of_int 1023"
    using assms(1) by (intro round_to_ulp_le_pow) auto
  moreover have "(2::real) powr of_int 1023 < double_overflow"
    unfolding double_overflow_def by (intro powr_less_mono) auto
  ultimately show ?thesis using double_round_pos_cases [OF assms(1)] by linarith
qed

lemma round_to_ulp_eval:
  assumes "0 < x" "2 powr of_int e \<le> x" "x < 2 powr (of_int e + 1)"
    and "j = max e (- 1022) - 52"
    and "round_half_even (x / 2 powr of_int j) = n"
  shows "round_to_ulp x = of_int n * 2 powr of_int j"
  using assms(4,5) ulp_exp_eq [OF assms(1-3)] by (simp add: round_to_ulp_def Let_def)

lemma double_round_eval:
  assumes "0 < x" "2 powr of_int e \<le> x" "x < 2 powr (of_int e + 1)" "e \<le> 1022"
    and "j = max e (- 1022) - 52"
    and "round_half_even (x / 2 powr of_int j) = n"
  shows "double_round x = Fin (of_int n * 2 powr of_int j)"
proof -
  have "x \<le> 2 powr of_int (e + 1)" using assms(3) by simp
  also have "(2::real) powr of_int (e + 1) \<le> 2 powr 1023"
    using assms(4) by (intro powr_mono) auto
  finally have "x \<le> 2 powr 1023" .
  then show ?thesis
    using double_round_finite [OF assms(1)] round_to_ulp_eval [OF assms(1-3) assms(5,6)] by simp
qed

section \<open>The back-calculation\<close>

subsection \<open>The literals and the denominator\<close>

lemma float_lit_0_1: "float_lit 0.1 = Fin (3602879701896397 / 36028797018963968)"
  unfolding float_lit_def
  using double_round_eval [where x = "0.1" and e = "-4" and j = "-56" and n = 7205759403792794]
  by (simp add: round_half_even_def powr_minus)

lemma float_lit_24: "float_lit 24 = Fin 24"
  unfolding float_lit_def
  using double_round_eval [where x = 24 and e = 4 and j = "-48" and n = "24 * 2 ^ 48"]
  by (simp add: round_half_even_def powr_minus)

lemma round_to_ulp_floor_product:
  "round_to_ulp (24 * (3602879701896397 / 36028797018963968)) =
     1351079888211149 / 562949953421312"
  using round_to_ulp_eval [where x = "24 * (3602879701896397 / 36028797018963968)"
      and e = 1 and j = "-51" and n = 5404319552844596]
  by (simp add: round_half_even_def powr_minus)

lemma double_round_floor_product:
  "double_round (24 * (3602879701896397 / 36028797018963968)) =
     Fin (1351079888211149 / 562949953421312)"
proof -
  have "double_round (24 * (3602879701896397 / 36028797018963968)) =
      Fin (round_to_ulp (24 * (3602879701896397 / 36028797018963968)))"
    by (intro double_round_finite) auto
  then show ?thesis by (simp only: round_to_ulp_floor_product)
qed

lemma pf_max_floor:
  assumes "pf_le cl (float_lit 0.1)"
  shows "pf_max cl (float_lit 0.1) = float_lit 0.1"
  using assms unfolding float_lit_0_1
  by (cases cl) (auto simp: pf_max_def pf_le_def pf_ge_def)

lemma pf_max_ge: "a \<noteq> NaN \<Longrightarrow> pf_ge (pf_max a (Fin b)) (Fin b)"
  by (cases a) (auto simp: pf_max_def pf_ge_def)

lemma pf_mul_Fin:
  "pf_mul (float_lit 24.0) (Fin m) = double_round (24 * m)"
  by (simp add: float_lit_24)

lemma denominator_floor:
  assumes "pf_le cl (float_lit 0.1)"
  shows "pf_mul (float_lit 24.0) (pf_max cl (float_lit 0.1)) =
         Fin (1351079888211149 / 562949953421312)"
proof -
  have "pf_max cl (float_lit 0.1) = Fin (3602879701896397 / 36028797018963968)"
    using pf_max_floor [OF assms] by (simp only: float_lit_0_1)
  then have "pf_mul (float_lit 24.0) (pf_max cl (float_lit 0.1)) =
      double_round (24 * (3602879701896397 / 36028797018963968))"
    by (simp only: pf_mul_Fin)
  then show ?thesis by (simp only: double_round_floor_product)
qed

lemma pf_max_Fin_floor:
  "\<exists>m. pf_max (Fin c) (float_lit 0.1) = Fin m \<and> 3602879701896397 / 36028797018963968 \<le> m \<and>
     m = max c (3602879701896397 / 36028797018963968)"
proof (cases "c < 3602879701896397 / 36028797018963968")
  case True
  then have "pf_max (Fin c) (float_lit 0.1) = Fin (3602879701896397 / 36028797018963968)"
    unfolding float_lit_0_1 pf_max_def by simp
  moreover have "max c (3602879701896397 / 36028797018963968) =
      3602879701896397 / 36028797018963968"
    using True by (simp only: max_def) simp
  ultimately show ?thesis by (intro exI [of _ "3602879701896397 / 36028797018963968"]) simp
next
  case False
  then have "pf_max (Fin c) (float_lit 0.1) = Fin c"
    unfolding float_lit_0_1 pf_max_def by simp
  moreover have "max c (3602879701896397 / 36028797018963968) = c"
    using False by (simp only: max_def) simp
  ultimately show ?thesis using False by (intro exI [of _ c]) simp
qed

lemma denominator_ge_floor:
  assumes "3602879701896397 / 36028797018963968 \<le> m"
  shows "double_round (24 * m) = PInf \<or>
     (\<exists>y. double_round (24 * m) = Fin y \<and> 1351079888211149 / 562949953421312 \<le> y \<and>
        y < double_overflow)"
proof -
  let ?x0 = "24 * (3602879701896397 / 36028797018963968) :: real"
  have x0: "0 < ?x0" by simp
  have "?x0 \<le> 24 * m" using assms by linarith
  then have "round_to_ulp ?x0 \<le> round_to_ulp (24 * m)"
    using x0 by (intro round_to_ulp_mono)
  then have "1351079888211149 / 562949953421312 \<le> round_to_ulp (24 * m)"
    by (simp only: round_to_ulp_floor_product)
  moreover have "0 < 24 * m" using assms by linarith
  ultimately show ?thesis
    using double_round_pos_cases [of "24 * m"] by blast
qed

lemma denominator_cases:
  assumes "cl \<noteq> NaN"
  shows "pf_mul (float_lit 24.0) (pf_max cl (float_lit 0.1)) = PInf \<or>
     (\<exists>y. pf_mul (float_lit 24.0) (pf_max cl (float_lit 0.1)) = Fin y \<and>
        1351079888211149 / 562949953421312 \<le> y \<and> y < double_overflow)"
proof (cases cl)
  case (Fin c)
  obtain m where m: "pf_max (Fin c) (float_lit 0.1) = Fin m"
      "3602879701896397 / 36028797018963968 \<le> m"
    using pf_max_Fin_floor by blast
  show ?thesis unfolding Fin m(1) pf_mul_Fin
    using m(2) by (rule denominator_ge_floor)
next
  case PInf
  have "pf_max PInf (float_lit 0.1) = PInf"
    unfolding float_lit_0_1 by (simp add: pf_max_def)
  then show ?thesis using PInf by (simp add: float_lit_24)
next
  case NInf
  have "pf_le NInf (float_lit 0.1)"
    unfolding float_lit_0_1 by (simp add: pf_le_def pf_ge_def)
  then have "pf_mul (float_lit 24.0) (pf_max NInf (float_lit 0.1)) =
      Fin (1351079888211149 / 562949953421312)"
    by (rule denominator_floor)
  moreover have "(1351079888211149 / 562949953421312 :: real) < double_overflow"
  proof -
    have "(1351079888211149 / 562949953421312 :: real) \<le> 2 powr 2" by simp
    also have "(2::real) powr 2 < double_overflow"
      unfolding double_overflow_def by (intro powr_less_mono) auto
    finally show ?thesis .
  qed
  ultimately show ?thesis using NInf by blast
next
  case NaN
  then show ?thesis using assms by simp
qed

lemma calculate_theoretical_conc_unfold:
  "calculate_theoretical_conc cl d =
     pf_truediv d (pf_mul (float_lit 24.0) (pf_max cl (float_lit 0.1)))"
  by (simp add: calculate_theoretical_conc_def)

lemma calculate_theoretical_conc_total: "\<exists>y. calculate_theoretical_conc cl d = Inr y"
proof (cases "cl = NaN")
  case True
  have "pf_mul (float_lit 24.0) (pf_max NaN (float_lit 0.1)) = NaN"
    by (simp add: pf_max_def float_lit_0_1 float_lit_24)
  then show ?thesis unfolding calculate_theoretical_conc_unfold True
    by (simp add: pf_truediv_def)
next
  case False
  have "pf_mul (float_lit 24.0) (pf_max cl (float_lit 0.1)) \<noteq> Fin 0"
    using denominator_cases [OF False] by auto
  then show ?thesis unfolding calculate_theoretical_conc_unfold
    by (simp add: pf_truediv_def)
qed

lemma quotient_bounds:
  assumes y1: "1351079888211149 / 562949953421312 \<le> y1" "y1 < double_overflow"
    and d: "2 powr (- 50) \<le> d" "d \<le> 2 powr 1024"
  shows "\<exists>y. double_round (d / y1) = Fin y \<and> 0 < y \<and> y \<le> d / 2.4"
proof -
  have y1pos: "0 < y1" "2 \<le> y1" using y1(1) by linarith+
  have dpos: "0 < d" using d(1) by (smt (verit) powr_gt_zero)
  let ?x = "d / y1"
  have x: "0 < ?x" using y1pos dpos by simp
  have "?x \<le> d / 2" using y1pos dpos by (intro divide_left_mono) auto
  also have "d / 2 \<le> 2 powr 1024 / 2" using d(2) by simp
  also have "(2::real) powr 1024 / 2 = 2 powr 1023"
    using powr_diff [of "2::real" 1024 1] by simp
  finally have xle: "?x \<le> 2 powr 1023" .
  have fin: "double_round ?x = Fin (round_to_ulp ?x)"
    using x xle by (rule double_round_finite)
  have "(2::real) powr (- 1074) = 2 powr (- 50) / 2 powr 1024"
    using powr_diff [of "2::real" "- 50" 1024] by simp
  also have "\<dots> \<le> d / 2 powr 1024" using d(1) by (intro divide_right_mono) auto
  also have "d / 2 powr 1024 \<le> ?x"
    using y1(2) y1pos dpos unfolding double_overflow_def by (intro divide_left_mono) auto
  finally have "2 powr of_int (- 1074) \<le> ?x" by simp
  then have "2 powr of_int (- 1074) \<le> round_to_ulp ?x"
    using x by (intro round_to_ulp_ge_pow) auto
  then have pos: "0 < round_to_ulp ?x" by (smt (verit) powr_gt_zero)
  have xD: "?x \<le> d / (1351079888211149 / 562949953421312)"
    using y1(1) dpos by (intro divide_left_mono) auto
  have up: "round_to_ulp ?x \<le> d / 2.4"
  proof (cases "2 powr (- 1022) \<le> ?x")
    case True
    have "\<bar>round_to_ulp ?x - ?x\<bar> \<le> ?x / 2 ^ 53"
      using True by (rule round_to_ulp_relative)
    then have "round_to_ulp ?x \<le> ?x + ?x / 2 ^ 53" by linarith
    also have "\<dots> = ?x * (1 + 1 / 2 ^ 53)" by (simp add: algebra_simps)
    also have "\<dots> \<le> d / (1351079888211149 / 562949953421312) * (1 + 1 / 2 ^ 53)"
      using xD by (intro mult_right_mono) auto
    also have "\<dots> = d * ((1 + 1 / 2 ^ 53) / (1351079888211149 / 562949953421312))"
      by simp
    also have "\<dots> \<le> d * (1 / 2.4)"
      using dpos by (intro mult_left_mono) auto
    finally show ?thesis by simp
  next
    case False
    then have "?x \<le> 2 powr of_int (- 1022)" by simp
    then have "round_to_ulp ?x \<le> 2 powr of_int (- 1022)"
      using x by (intro round_to_ulp_le_pow) auto
    also have "(2::real) powr of_int (- 1022) \<le> 2 powr (- 52)"
      by (intro powr_mono) auto
    also have "(2::real) powr (- 52) = 2 powr (- 50) / 4"
      using powr_diff [of "2::real" "- 50" 2] by simp
    also have "\<dots> \<le> d / 4" using d(1) by simp
    also have "d / 4 \<le> d / 2.4" using dpos by simp
    finally show ?thesis .
  qed
  show ?thesis using fin pos up by blast
qed

lemma result_bounds_nonNaN:
  assumes cl: "cl \<noteq> NaN" and d: "2 powr (- 50) \<le> d" "d \<le> 2 powr 1024"
  shows "\<exists>y. calculate_theoretical_conc cl (Fin d) = Inr (Fin y) \<and> 0 \<le> y \<and> y \<le> d / 2.4"
proof -
  have dpos: "0 < d" using d(1) by (smt (verit) powr_gt_zero)
  let ?den = "pf_mul (float_lit 24.0) (pf_max cl (float_lit 0.1))"
  consider "?den = PInf"
    | y1 where "?den = Fin y1" "1351079888211149 / 562949953421312 \<le> y1" "y1 < double_overflow"
    using denominator_cases [OF cl] by blast
  then show ?thesis
  proof cases
    case 1
    then have "calculate_theoretical_conc cl (Fin d) = Inr (Fin 0)"
      unfolding calculate_theoretical_conc_unfold by (simp add: pf_truediv_def)
    then show ?thesis using dpos by simp
  next
    case 2
    obtain y where y: "double_round (d / y1) = Fin y" "0 < y" "y \<le> d / 2.4"
      using quotient_bounds [OF 2(2,3) d] by blast
    have "y1 \<noteq> 0" using 2(2) by linarith
    then have "calculate_theoretical_conc cl (Fin d) = Inr (Fin y)"
      unfolding calculate_theoretical_conc_unfold 2(1) using y(1) by (simp add: pf_truediv_def)
    then show ?thesis using y by (intro exI [of _ y]) simp
  qed
qed

lemma denominator_ge:
  assumes "cl \<noteq> NaN"
  shows "pf_ge (pf_mul (float_lit 24.0) (pf_max cl (float_lit 0.1))) (Fin 2.4)"
proof -
  have "(2.4::real) < 1351079888211149 / 562949953421312" by simp
  then show ?thesis using denominator_cases [OF assms]
    by (auto simp: pf_ge_def)
qed

lemma round_to_ulp_largest_product:
  "round_to_ulp (24 * 2 ^ 1019) = 3 * 2 powr 1022"
proof -
  have p: "(2::real) powr 1023 = 2 ^ 1023" "(2::real) powr 1024 = 2 ^ 1024"
    "(2::real) powr 971 = 2 ^ 971" "(2::real) powr 1022 = 2 ^ 1022"
    by (simp_all add: powr_realpow [symmetric])
  have a: "(24 * 2 ^ 1019 :: real) = 3 * 2 ^ 1022" by simp
  have b: "(3 * 2 ^ 1022 :: real) / 2 ^ 971 = 3 * 2 ^ 51"
    by (simp add: power_diff [symmetric])
  have "round_half_even ((24 * 2 ^ 1019) / 2 powr of_int 971) = 3 * 2 ^ 51"
  proof -
    have "(24 * 2 ^ 1019 :: real) / 2 powr of_int 971 = of_int (3 * 2 ^ 51)"
      using a b p(3) by simp
    then show ?thesis by (simp add: round_half_even_def)
  qed
  then have "round_to_ulp (24 * 2 ^ 1019) = of_int (3 * 2 ^ 51) * 2 powr of_int 971"
    using p by (intro round_to_ulp_eval [where e = 1023]) auto
  also have "\<dots> = 3 * 2 powr 1022"
    using b p by simp
  finally show ?thesis .
qed

lemma denominator_finite:
  assumes "c \<le> 2 ^ 1019"
  shows "\<exists>y1. pf_mul (float_lit 24.0) (pf_max (Fin c) (float_lit 0.1)) = Fin y1 \<and>
     1351079888211149 / 562949953421312 \<le> y1 \<and> y1 < double_overflow"
proof -
  obtain m where m: "pf_max (Fin c) (float_lit 0.1) = Fin m"
      "3602879701896397 / 36028797018963968 \<le> m"
      "m = max c (3602879701896397 / 36028797018963968)"
    using pf_max_Fin_floor by blast
  have "(3602879701896397 / 36028797018963968 :: real) \<le> 1" by simp
  also have "(1::real) \<le> 2 ^ 1019" by (rule one_le_power) simp
  finally have "m \<le> 2 ^ 1019" using assms m(3) by simp
  then have le: "24 * m \<le> 24 * 2 ^ 1019" by simp
  have pos: "0 < 24 * m" using m(2) by linarith
  have "round_to_ulp (24 * m) \<le> round_to_ulp (24 * 2 ^ 1019)"
    using pos le by (rule round_to_ulp_mono)
  also have "\<dots> = 3 * 2 powr 1022" by (rule round_to_ulp_largest_product)
  also have "\<dots> < 4 * 2 powr 1022" by simp
  also have "4 * (2::real) powr 1022 = 2 powr 1024"
    using powr_add [of "2::real" 2 1022] by simp
  finally have "round_to_ulp (24 * m) < double_overflow"
    by (simp add: double_overflow_def)
  then have "double_round (24 * m) \<noteq> PInf"
    using double_round_pos_cases [OF pos] by auto
  then show ?thesis
    unfolding m(1) pf_mul_Fin using denominator_ge_floor [OF m(2)] by blast
qed

lemma result_positive:
  assumes c: "c \<le> 2 ^ 1019" and d: "2 powr (- 50) \<le> d" "d \<le> 2 powr 1024"
  shows "\<exists>y. calculate_theoretical_conc (Fin c) (Fin d) = Inr (Fin y) \<and> 0 < y \<and> y \<le> d / 2.4"
proof -
  obtain y1 where y1: "pf_mul (float_lit 24.0) (pf_max (Fin c) (float_lit 0.1)) = Fin y1"
      "1351079888211149 / 562949953421312 \<le> y1" "y1 < double_overflow"
    using denominator_finite [OF c] by blast
  obtain y where y: "double_round (d / y1) = Fin y" "0 < y" "y \<le> d / 2.4"
    using quotient_bounds [OF y1(2,3) d] by blast
  have "y1 \<noteq> 0" using y1(2) by linarith
  then have "calculate_theoretical_conc (Fin c) (Fin d) = Inr (Fin y)"
    unfolding calculate_theoretical_conc_unfold y1(1) using y(1) by (simp add: pf_truediv_def)
  then show ?thesis using y by blast
qed

lemma calculate_theoretical_conc_floor:
  assumes "pf_le cl (float_lit 0.1)"
  shows "calculate_theoretical_conc cl (Fin d) =
     Inr (double_round (d / (1351079888211149 / 562949953421312)))"
  unfolding calculate_theoretical_conc_unfold denominator_floor [OF assms]
  by (simp add: pf_truediv_def)

lemma pf_le_zero_floor: "pf_le (Fin 0) (float_lit 0.1)"
  unfolding float_lit_0_1 by (simp add: pf_le_def pf_ge_def)

lemma calculate_theoretical_conc_0_400:
  "calculate_theoretical_conc (Fin 0) (Fin 400) = Inr (Fin (1466015503701333 / 8796093022208))"
proof -
  have "double_round (400 / (1351079888211149 / 562949953421312)) =
      Fin (1466015503701333 / 8796093022208)"
    using double_round_eval [where x = "400 / (1351079888211149 / 562949953421312)"
        and e = 7 and j = "-45" and n = 5864062014805332]
    by (simp add: round_half_even_def powr_minus)
  then show ?thesis
    using calculate_theoretical_conc_floor [OF pf_le_zero_floor, of 400] by simp
qed

lemma denominator_5: "pf_mul (float_lit 24.0) (pf_max (Fin 5) (float_lit 0.1)) = Fin 120"
proof -
  have "pf_max (Fin 5) (float_lit 0.1) = Fin 5"
    unfolding float_lit_0_1 by (simp add: pf_max_def)
  moreover have "double_round 120 = Fin 120"
    using double_round_eval [where x = 120 and e = 6 and j = "-46" and n = "120 * 2 ^ 46"]
    by (simp add: round_half_even_def powr_minus)
  ultimately show ?thesis by (simp add: float_lit_24)
qed

lemma calculate_theoretical_conc_5_400:
  "calculate_theoretical_conc (Fin 5) (Fin 400) = Inr (Fin (7505999378950827 / 2251799813685248))"
proof -
  have "double_round (400 / 120) = Fin (7505999378950827 / 2251799813685248)"
    using double_round_eval [where x = "400 / 120" and e = 1 and j = "-51" and n = 7505999378950827]
    by (simp add: round_half_even_def powr_minus)
  then show ?thesis
    unfolding calculate_theoretical_conc_unfold denominator_5 by (simp add: pf_truediv_def)
qed

lemma calculate_theoretical_conc_5_200:
  "calculate_theoretical_conc (Fin 5) (Fin 200) = Inr (Fin (7505999378950827 / 4503599627370496))"
proof -
  have "double_round (200 / 120) = Fin (7505999378950827 / 4503599627370496)"
    using double_round_eval [where x = "200 / 120" and e = 0 and j = "-52" and n = 7505999378950827]
    by (simp add: round_half_even_def powr_minus)
  then show ?thesis
    unfolding calculate_theoretical_conc_unfold denominator_5 by (simp add: pf_truediv_def)
qed

lemma calculate_theoretical_conc_overflow:
  "calculate_theoretical_conc (Fin (2 ^ 1020)) (Fin 400) = Inr (Fin 0)"
proof -
  have "pf_max (Fin (2 ^ 1020)) (float_lit 0.1) = Fin (2 ^ 1020)"
    unfolding float_lit_0_1 by (simp add: pf_max_def)
  moreover have "double_round (24 * 2 ^ 1020) = PInf"
  proof -
    have p: "(2::real) powr 1024 = 2 ^ 1024" by (simp add: powr_realpow [symmetric])
    have "(2::real) ^ 1024 \<le> 24 * 2 ^ 1020" by simp
    then have "2 powr of_int 1024 \<le> (24 * 2 ^ 1020 :: real)" using p by simp
    then have "2 powr of_int 1024 \<le> round_to_ulp (24 * 2 ^ 1020)"
      by (intro round_to_ulp_ge_pow) auto
    then have "double_overflow \<le> round_to_ulp (24 * 2 ^ 1020)"
      by (simp add: double_overflow_def)
    then show ?thesis using double_round_pos_cases [of "24 * 2 ^ 1020"] by auto
  qed
  ultimately show ?thesis
    unfolding calculate_theoretical_conc_unfold by (simp add: float_lit_24 pf_truediv_def)
qed

lemma calculate_theoretical_conc_inf_inf: "calculate_theoretical_conc PInf PInf = Inr NaN"
  unfolding calculate_theoretical_conc_unfold float_lit_0_1
  by (simp add: pf_max_def float_lit_24 pf_truediv_def)

lemma calculate_theoretical_conc_nan: "calculate_theoretical_conc NaN (Fin d) = Inr NaN"
  unfolding calculate_theoretical_conc_unfold float_lit_0_1
  by (simp add: pf_max_def float_lit_24 pf_truediv_def)

lemma calculate_theoretical_conc_inf: "calculate_theoretical_conc PInf (Fin d) = Inr (Fin 0)"
  unfolding calculate_theoretical_conc_unfold float_lit_0_1
  by (simp add: pf_max_def float_lit_24 pf_truediv_def)

subsection \<open>Accuracy of the result\<close>

lemma relative_accuracy:
  assumes c: "c \<le> 2 ^ 500" and d: "1 / 2 ^ 500 \<le> d" "d \<le> 2 ^ 500"
  shows "\<exists>y. calculate_theoretical_conc (Fin c) (Fin d) = Inr (Fin y) \<and>
     \<bar>y - d / (24 * max c 0.1)\<bar> \<le> d / (24 * max c 0.1) / 2 ^ 50"
proof -
  define u :: real where "u = 1 / 2 ^ 53"
  have u: "0 < u" "u < 1" "(1 + u) / (1 - u) \<le> 1 + 1 / 2 ^ 50"
    "1 - 1 / 2 ^ 50 \<le> (1 - u) / ((1 + u) * (1 + u))"
    "(1 + u) * (1 + u) \<le> 2"
    unfolding u_def by simp_all
  have dpos: "0 < d" using d(1) by (smt (verit) divide_pos_pos zero_less_power zero_less_one)
  obtain m where m: "pf_max (Fin c) (float_lit 0.1) = Fin m"
      "3602879701896397 / 36028797018963968 \<le> m"
      "m = max c (3602879701896397 / 36028797018963968)"
    using pf_max_Fin_floor by blast
  define m0 :: real where "m0 = max c 0.1"
  define a :: real where "a = 24 * m0"
  define T :: real where "T = d / a"
  have m0pos: "0.1 \<le> m0" unfolding m0_def by simp
  have apos: "0 < a" "2 \<le> a" unfolding a_def using m0pos by linarith+
  have Tpos: "0 < T" unfolding T_def using dpos apos by simp
  have m0m: "m0 \<le> m" unfolding m0_def m(3) by (intro max.mono) simp_all
  have mm0: "m \<le> m0 * (1 + u)"
  proof (cases "c < 3602879701896397 / 36028797018963968")
    case True
    then have "m = 3602879701896397 / 36028797018963968" unfolding m(3) by simp
    also have "\<dots> \<le> 0.1 * (1 + u)" unfolding u_def by simp
    also have "\<dots> \<le> m0 * (1 + u)" using m0pos u(1) by (intro mult_right_mono) auto
    finally show ?thesis .
  next
    case False
    then have "m = c" "m0 = c" unfolding m(3) m0_def by simp_all
    then show ?thesis using m(2) u(1) by (simp add: algebra_simps)
  qed
  have mle: "m \<le> 2 ^ 500"
  proof -
    have "(3602879701896397 / 36028797018963968 :: real) \<le> 1" by simp
    also have "(1::real) \<le> 2 ^ 500" by (rule one_le_power) simp
    finally show ?thesis using c m(3) by simp
  qed
  let ?x1 = "24 * m"
  have x1: "0 < ?x1" "2 \<le> ?x1" using m(2) by linarith+
  have x1le: "?x1 \<le> 2 ^ 505"
  proof -
    have "?x1 \<le> 24 * 2 ^ 500" using mle by simp
    also have "\<dots> \<le> (32 * 2 ^ 500 :: real)" by simp
    also have "\<dots> = 2 ^ 505" by simp
    finally show ?thesis .
  qed
  have "(2::real) ^ 505 \<le> 2 ^ 1023" by (intro power_increasing) auto
  then have "?x1 \<le> 2 powr 1023" using x1le by (simp add: powr_realpow [symmetric])
  then have fin1: "double_round ?x1 = Fin (round_to_ulp ?x1)"
    using x1(1) by (intro double_round_finite)
  define y1 where "y1 = round_to_ulp ?x1"
  have "(2::real) powr (- 1022) \<le> 2 powr 1" by (intro powr_mono) auto
  then have "2 powr (- 1022) \<le> ?x1" using x1(2) by simp
  then have "\<bar>y1 - ?x1\<bar> \<le> ?x1 / 2 ^ 53"
    unfolding y1_def by (rule round_to_ulp_relative)
  then have a1: "?x1 - ?x1 / 2 ^ 53 \<le> y1" and a2: "y1 \<le> ?x1 + ?x1 / 2 ^ 53"
    by (simp_all only: abs_le_iff) linarith+
  have b1: "?x1 * (1 - u) = ?x1 - ?x1 / 2 ^ 53" and b2: "?x1 * (1 + u) = ?x1 + ?x1 / 2 ^ 53"
    unfolding u_def by (simp_all add: algebra_simps)
  have e1: "?x1 * (1 - u) \<le> y1" "y1 \<le> ?x1 * (1 + u)"
    unfolding b1 b2 using a1 a2 by - assumption+
  have alo: "a * (1 - u) \<le> y1"
  proof -
    have "a * (1 - u) \<le> ?x1 * (1 - u)"
      unfolding a_def using m0m u by (intro mult_right_mono) auto
    then show ?thesis using e1(1) by linarith
  qed
  have ahi: "y1 \<le> a * ((1 + u) * (1 + u))"
  proof -
    have "?x1 * (1 + u) \<le> 24 * (m0 * (1 + u)) * (1 + u)"
      using mm0 u by (intro mult_right_mono) auto
    also have "\<dots> = a * ((1 + u) * (1 + u))" unfolding a_def by simp
    finally show ?thesis using e1(2) by linarith
  qed
  have y1pos: "0 < y1" "1 \<le> y1"
  proof -
    have "1 \<le> ?x1 * (1 - u)"
    proof -
      have "(1::real) \<le> 2 * (1 - u)" unfolding u_def by simp
      also have "\<dots> \<le> ?x1 * (1 - u)" using x1(2) u by (intro mult_right_mono) auto
      finally show ?thesis .
    qed
    then show "1 \<le> y1" using e1(1) by linarith
    then show "0 < y1" by linarith
  qed
  let ?x2 = "d / y1"
  have x2: "0 < ?x2" using dpos y1pos by simp
  have x2le: "?x2 \<le> d" using dpos y1pos by (simp add: field_simps)
  have "d \<le> 2 powr 1023"
  proof -
    have "(2::real) ^ 500 \<le> 2 ^ 1023" by (intro power_increasing) auto
    then show ?thesis using d(2) by (simp add: powr_realpow [symmetric])
  qed
  then have fin2: "double_round ?x2 = Fin (round_to_ulp ?x2)"
    using x2 x2le by (intro double_round_finite) auto
  define y where "y = round_to_ulp ?x2"
  have y1le: "y1 \<le> 2 ^ 506"
  proof -
    have "y1 \<le> ?x1 * (1 + u)" by (rule e1(2))
    also have "\<dots> \<le> 2 ^ 505 * 2"
      using x1le x1(1) u by (intro mult_mono) auto
    finally show ?thesis by simp
  qed
  have x2ge: "2 powr (- 1022) \<le> ?x2"
  proof -
    have "(2::real) powr (- 1022) \<le> 2 powr (- 1006)" by (intro powr_mono) auto
    also have "(2::real) powr (- 1006) = 1 / 2 ^ 500 / 2 ^ 506"
      by (simp add: powr_minus powr_realpow [symmetric] divide_simps flip: powr_add)
    also have "\<dots> \<le> d / 2 ^ 506" using d(1) by (intro divide_right_mono) auto
    also have "\<dots> \<le> ?x2" using y1le y1pos dpos by (intro divide_left_mono) auto
    finally show ?thesis .
  qed
  have "\<bar>y - ?x2\<bar> \<le> ?x2 / 2 ^ 53"
    unfolding y_def using x2ge by (rule round_to_ulp_relative)
  then have a3: "?x2 - ?x2 / 2 ^ 53 \<le> y" and a4: "y \<le> ?x2 + ?x2 / 2 ^ 53"
    by (simp_all only: abs_le_iff) linarith+
  have b3: "?x2 * (1 - u) = ?x2 - ?x2 / 2 ^ 53" and b4: "?x2 * (1 + u) = ?x2 + ?x2 / 2 ^ 53"
    unfolding u_def by (simp_all add: algebra_simps)
  have e2: "?x2 * (1 - u) \<le> y" "y \<le> ?x2 * (1 + u)"
    unfolding b3 b4 using a3 a4 by - assumption+
  have res: "calculate_theoretical_conc (Fin c) (Fin d) = Inr (Fin y)"
  proof -
    have "y1 \<noteq> 0" using y1pos by linarith
    then show ?thesis
      unfolding calculate_theoretical_conc_unfold m(1) pf_mul_Fin fin1
      using fin2 by (simp add: pf_truediv_def y1_def y_def)
  qed
  have up: "y \<le> T * (1 + 1 / 2 ^ 50)"
  proof -
    have "0 < a * (1 - u)" using apos u by simp
    then have "?x2 \<le> d / (a * (1 - u))"
      using alo dpos by (intro divide_left_mono) auto
    then have "?x2 * (1 + u) \<le> d / (a * (1 - u)) * (1 + u)"
      using u by (intro mult_right_mono) auto
    also have "d / (a * (1 - u)) * (1 + u) = T * ((1 + u) / (1 - u))"
      unfolding T_def by simp
    also have "\<dots> \<le> T * (1 + 1 / 2 ^ 50)"
      using Tpos u(3) by (intro mult_left_mono) auto
    finally show ?thesis using e2(2) by linarith
  qed
  have lo: "T * (1 - 1 / 2 ^ 50) \<le> y"
  proof -
    have "T * (1 - 1 / 2 ^ 50) \<le> T * ((1 - u) / ((1 + u) * (1 + u)))"
      using Tpos u(4) by (intro mult_left_mono) auto
    also have "\<dots> = d / (a * ((1 + u) * (1 + u))) * (1 - u)"
      unfolding T_def by simp
    also have "\<dots> \<le> ?x2 * (1 - u)"
    proof (intro mult_right_mono)
      show "d / (a * ((1 + u) * (1 + u))) \<le> ?x2"
        using ahi y1pos dpos by (intro divide_left_mono) auto
      show "0 \<le> 1 - u" using u by simp
    qed
    finally show ?thesis using e2(1) by linarith
  qed
  have upe: "T * (1 + 1 / 2 ^ 50) = T + T / 2 ^ 50" and loe: "T * (1 - 1 / 2 ^ 50) = T - T / 2 ^ 50"
    by (simp_all add: algebra_simps)
  have "y \<le> T + T / 2 ^ 50" "T - T / 2 ^ 50 \<le> y"
    using up lo unfolding upe loe by - assumption+
  then have "\<bar>y - T\<bar> \<le> T / 2 ^ 50"
    by (simp only: abs_le_iff) linarith
  then show ?thesis using res unfolding T_def a_def m0_def by blast
qed

lemma float_lit_2_4: "float_lit 2.4 = Fin (5404319552844595 / 2251799813685248)"
  unfolding float_lit_def
  using double_round_eval [where x = "2.4" and e = 1 and j = "-51" and n = 5404319552844595]
  by (simp add: round_half_even_def powr_minus)

lemma float_quotient_400_2_4:
  "pf_truediv (Fin 400) (float_lit 2.4) = Inr (Fin (2932031007402667 / 17592186044416))"
proof -
  have "double_round (400 / (5404319552844595 / 2251799813685248)) =
      Fin (2932031007402667 / 17592186044416)"
    using double_round_eval [where x = "400 / (5404319552844595 / 2251799813685248)"
        and e = 7 and j = "-45" and n = 5864062014805334]
    by (simp add: round_half_even_def powr_minus)
  then show ?thesis unfolding float_lit_2_4 by (simp add: pf_truediv_def)
qed

lemma calculate_theoretical_conc_tiny_dose:
  "calculate_theoretical_conc (Fin 0) (Fin (1 / 2 ^ 1073)) = Inr (Fin (1 / 2 ^ 1074))"
proof -
  have "double_round (1 / 2 ^ 1073 / (1351079888211149 / 562949953421312)) =
      Fin (of_int 1 * 2 powr of_int (- 1074))"
    by (rule double_round_eval [where e = "- 1075"])
      (simp_all add: round_half_even_def powr_minus)
  then have "double_round (1 / 2 ^ 1073 / (1351079888211149 / 562949953421312)) =
      Fin (1 / 2 ^ 1074)"
    by (simp add: powr_minus)
  then show ?thesis
    using calculate_theoretical_conc_floor [OF pf_le_zero_floor, of "1 / 2 ^ 1073"] by simp
qed

lemma dose_range_powr:
  "(2::real) powr (- 50) = 1 / 2 ^ 50" "(2::real) powr 1024 = 2 ^ 1024"
  by (simp_all add: powr_minus powr_realpow [symmetric] divide_simps)

lemma denominator_ge_float:
  assumes "cl \<noteq> NaN"
  shows "pf_ge (pf_mul (float_lit 24.0) (pf_max cl (float_lit 0.1))) (float_lit 2.4)"
proof -
  have "(5404319552844595 / 2251799813685248 :: real) < 1351079888211149 / 562949953421312"
    by simp
  then show ?thesis using denominator_cases [OF assms] unfolding float_lit_2_4
    by (auto simp: pf_ge_def)
qed

text \<open>
  C1, as stated, fails in float arithmetic. The divisor for a clearance of 0 is the float
  product \<^verbatim>\<open>24.0 * 0.1\<close>, which is 2.4000000000000004 and not 2.4: with a dose of 400
  the function returns 166.66666666666663, which is neither the real number 400 / 2.4 nor
  the float quotient \<^verbatim>\<open>400 / 2.4\<close> (166.66666666666669). With a clearance of
  \<open>2 ^ 1020\<close> the product overflows to infinity and the function returns 0, while
  400 / (24 * max(cl, 0.1)) is not 0.
\<close>

theorem C1_rounding_counterexample:
  "calculate_theoretical_conc (Fin 0) (Fin 400) = Inr (Fin (1466015503701333 / 8796093022208)) \<and>
   (1466015503701333 / 8796093022208 :: real) \<noteq> 400 / 2.4 \<and>
   pf_truediv (Fin 400) (float_lit 2.4) = Inr (Fin (2932031007402667 / 17592186044416)) \<and>
   (1466015503701333 / 8796093022208 :: real) \<noteq> 2932031007402667 / 17592186044416 \<and>
   calculate_theoretical_conc (Fin (2 ^ 1020)) (Fin 400) = Inr (Fin 0) \<and>
   (400 / (24 * max (2 ^ 1020) 0.1) :: real) \<noteq> 0"
proof -
  have "(1466015503701333 / 8796093022208 :: real) \<noteq> 400 / 2.4" by simp
  moreover have "(1466015503701333 / 8796093022208 :: real) \<noteq> 2932031007402667 / 17592186044416"
    by simp
  moreover have "(400 / (24 * max (2 ^ 1020) 0.1) :: real) \<noteq> 0"
  proof -
    have "(0::real) < max (2 ^ 1020) 0.1" by (simp add: max_def)
    then show ?thesis by simp
  qed
  ultimately show ?thesis
    using calculate_theoretical_conc_0_400 float_quotient_400_2_4
      calculate_theoretical_conc_overflow by blast
qed

text \<open>
  C1, amended. Whenever the clearance is at most the float 0.1 (minus infinity included),
  the result is the float quotient of the dose by the float product \<^verbatim>\<open>24.0 * 0.1\<close>, which
  is 1351079888211149 / 562949953421312 = 2.4000000000000004. For a finite clearance up to
  \<open>2 ^ 500\<close> and a dose between \<open>1 / 2 ^ 500\<close> and \<open>2 ^ 500\<close> the result is finite and
  within the relative error \<open>1 / 2 ^ 50\<close> of d / (24 * max(cl, 0.1)). A clearance of 0 and
  a dose of 400 give 1466015503701333 / 8796093022208 = 166.66666666666663.
\<close>

theorem C1_back_calculation_accuracy:
  "(pf_le cl (float_lit 0.1) \<longrightarrow>
      calculate_theoretical_conc cl (Fin d) =
        Inr (double_round (d / (1351079888211149 / 562949953421312)))) \<and>
   (c \<le> 2 ^ 500 \<and> 1 / 2 ^ 500 \<le> d \<and> d \<le> 2 ^ 500 \<longrightarrow>
      (\<exists>y. calculate_theoretical_conc (Fin c) (Fin d) = Inr (Fin y) \<and>
         \<bar>y - d / (24 * max c 0.1)\<bar> \<le> d / (24 * max c 0.1) / 2 ^ 50)) \<and>
   calculate_theoretical_conc (Fin 0) (Fin 400) = Inr (Fin (1466015503701333 / 8796093022208))"
  using calculate_theoretical_conc_floor [of cl d] relative_accuracy [of c d]
    calculate_theoretical_conc_0_400
  by blast

theorem C1_back_calculation_accuracy_witness:
  "pf_le NInf (float_lit 0.1) \<and>
   calculate_theoretical_conc NInf (Fin 400) =
     Inr (double_round (400 / (1351079888211149 / 562949953421312))) \<and>
   (0::real) \<le> 2 ^ 500 \<and> (1 / 2 ^ 500 :: real) \<le> 400 \<and> (400::real) \<le> 2 ^ 500 \<and>
   \<bar>1466015503701333 / 8796093022208 - 400 / (24 * max 0 0.1)\<bar>
     \<le> (400 / (24 * max 0 0.1) / 2 ^ 50 :: real)"
proof -
  have a: "pf_le NInf (float_lit 0.1)"
    unfolding float_lit_0_1 by (simp add: pf_le_def pf_ge_def)
  have b: "(0::real) \<le> 2 ^ 500 \<and> (1 / 2 ^ 500 :: real) \<le> 400 \<and> (400::real) \<le> 2 ^ 500"
  proof -
    have "(1::real) \<le> 2 ^ 500" by (rule one_le_power) simp
    moreover have "(512::real) \<le> 2 ^ 500"
      using power_increasing [of 9 500 "2::real"] by simp
    ultimately show ?thesis by (simp add: divide_simps)
  qed
  note t = C1_back_calculation_accuracy [of NInf 400 0]
  have c: "calculate_theoretical_conc NInf (Fin 400) =
      Inr (double_round (400 / (1351079888211149 / 562949953421312)))"
    using t a by blast
  obtain y where y: "calculate_theoretical_conc (Fin 0) (Fin 400) = Inr (Fin y)"
      "\<bar>y - 400 / (24 * max 0 0.1)\<bar> \<le> 400 / (24 * max 0 0.1) / 2 ^ 50"
    using t b by blast
  have "y = 1466015503701333 / 8796093022208"
    using y(1) t by simp
  then show ?thesis using a b c y(2) by blast
qed

text \<open>
  C10, as stated, fails for some clearances and some positive doses. A NaN clearance passes
  through \<^verbatim>\<open>max\<close>, so the denominator and the result are NaN, which compare with nothing.
  An infinite clearance gives the result 0, and so does the finite clearance \<open>2 ^ 1020\<close>,
  whose product with 24 overflows to infinity. The dose \<open>1 / 2 ^ 1073\<close> with a clearance
  of 0 gives \<open>1 / 2 ^ 1074\<close>, the smallest positive float, which is more than the dose
  divided by 2.4. An infinite dose over an infinite clearance gives NaN.
\<close>

theorem C10_positivity_counterexample:
  "calculate_theoretical_conc NaN (Fin 400) = Inr NaN \<and>
   \<not> pf_gt NaN (Fin 0) \<and> \<not> pf_le NaN (Fin (400 / 2.4)) \<and>
   pf_mul (float_lit 24.0) (pf_max NaN (float_lit 0.1)) = NaN \<and>
   \<not> pf_ge NaN (Fin 2.4) \<and>
   calculate_theoretical_conc PInf (Fin 400) = Inr (Fin 0) \<and>
   calculate_theoretical_conc (Fin (2 ^ 1020)) (Fin 400) = Inr (Fin 0) \<and>
   \<not> pf_gt (Fin 0) (Fin 0) \<and>
   calculate_theoretical_conc (Fin 0) (Fin (1 / 2 ^ 1073)) = Inr (Fin (1 / 2 ^ 1074)) \<and>
   \<not> pf_le (Fin (1 / 2 ^ 1074)) (Fin (1 / 2 ^ 1073 / 2.4)) \<and>
   calculate_theoretical_conc PInf PInf = Inr NaN"
proof -
  have m: "pf_max NaN (float_lit 0.1) = NaN"
    unfolding float_lit_0_1 by (simp add: pf_max_def)
  have "pf_mul (float_lit 24.0) (pf_max NaN (float_lit 0.1)) = NaN \<and> \<not> pf_ge NaN (Fin 2.4)"
    unfolding m by (simp add: float_lit_24 pf_ge_def)
  moreover have "\<not> pf_le (Fin (1 / 2 ^ 1074)) (Fin (1 / 2 ^ 1073 / 2.4))"
    by (simp add: pf_le_def pf_ge_def)
  moreover have "\<not> pf_gt NaN (Fin 0) \<and> \<not> pf_le NaN (Fin (400 / 2.4)) \<and> \<not> pf_gt (Fin 0) (Fin 0)"
    by (simp add: pf_le_def pf_ge_def)
  ultimately show ?thesis
    using calculate_theoretical_conc_nan [of 400] calculate_theoretical_conc_inf [of 400]
      calculate_theoretical_conc_overflow calculate_theoretical_conc_tiny_dose
      calculate_theoretical_conc_inf_inf
    by blast
qed

text \<open>
  C10, amended. The back-calculation returns a value for every clearance and every dose:
  it never divides by zero. For every clearance other than NaN the denominator is at least
  2.4, both the real number and the float; for a clearance of at most the float 0.1 it is
  exactly the float product \<^verbatim>\<open>24.0 * 0.1\<close>, so the floor is 0.1 and the factor 24. For a
  finite dose d between \<open>1 / 2 ^ 50\<close> and \<open>2 ^ 1024\<close> the result is finite and at most
  d / 2.4; it is strictly positive for every finite clearance up to \<open>2 ^ 1019\<close>, and
  not negative for every clearance other than NaN.
\<close>

theorem C10_back_calculation_bounds:
  "(\<exists>y. calculate_theoretical_conc cl dose = Inr y) \<and>
   (cl \<noteq> NaN \<longrightarrow>
      pf_ge (pf_mul (float_lit 24.0) (pf_max cl (float_lit 0.1))) (Fin 2.4) \<and>
      pf_ge (pf_mul (float_lit 24.0) (pf_max cl (float_lit 0.1))) (float_lit 2.4)) \<and>
   (pf_le cl (float_lit 0.1) \<longrightarrow>
      pf_mul (float_lit 24.0) (pf_max cl (float_lit 0.1)) =
        Fin (1351079888211149 / 562949953421312)) \<and>
   (c \<le> 2 ^ 1019 \<and> 1 / 2 ^ 50 \<le> d \<and> d \<le> 2 ^ 1024 \<longrightarrow>
      (\<exists>y. calculate_theoretical_conc (Fin c) (Fin d) = Inr (Fin y) \<and> 0 < y \<and> y \<le> d / 2.4)) \<and>
   (cl \<noteq> NaN \<and> 1 / 2 ^ 50 \<le> d \<and> d \<le> 2 ^ 1024 \<longrightarrow>
      (\<exists>y. calculate_theoretical_conc cl (Fin d) = Inr (Fin y) \<and> 0 \<le> y \<and> y \<le> d / 2.4))"
  using calculate_theoretical_conc_total [of cl dose] denominator_ge [of cl]
    denominator_ge_float [of cl] denominator_floor [of cl] result_positive [of c d] result_bounds_nonNaN [of cl d]
  unfolding dose_range_powr
  by blast

theorem C10_back_calculation_bounds_witness:
  "Fin 0 \<noteq> NaN \<and> pf_le (Fin 0) (float_lit 0.1) \<and>
   (0::real) \<le> 2 ^ 1019 \<and> (1 / 2 ^ 50 :: real) \<le> 400 \<and> (400::real) \<le> 2 ^ 1024 \<and>
   pf_ge (pf_mul (float_lit 24.0) (pf_max (Fin 0) (float_lit 0.1))) (Fin 2.4) \<and>
   pf_ge (pf_mul (float_lit 24.0) (pf_max (Fin 0) (float_lit 0.1))) (float_lit 2.4) \<and>
   pf_mul (float_lit 24.0) (pf_max (Fin 0) (float_lit 0.1)) =
     Fin (1351079888211149 / 562949953421312) \<and>
   (\<exists>y. calculate_theoretical_conc (Fin 0) (Fin 400) = Inr (Fin y) \<and> 0 < y \<and> y \<le> 400 / 2.4)"
proof -
  have b: "(0::real) \<le> 2 ^ 1019 \<and> (1 / 2 ^ 50 :: real) \<le> 400 \<and> (400::real) \<le> 2 ^ 1024"
  proof -
    have "(512::real) \<le> 2 ^ 1024"
      using power_increasing [of 9 1024 "2::real"] by simp
    then show ?thesis by (simp add: divide_simps)
  qed
  have n: "Fin 0 \<noteq> NaN" by simp
  show ?thesis
    using C10_back_calculation_bounds [of "Fin 0" "Fin 400" 0 400] b n pf_le_zero_floor
    by blast
qed

section \<open>The estimation block\<close>

lemma default_sidebar_in_range: "in_widget_range default_sidebar"
  by (simp add: in_widget_range_def default_sidebar_def sex_options_def geno_options_def)

lemma default_GenotypingValue: "GenotypingValue (geno_label default_sidebar) = Inr 1"
  by (simp add: GenotypingValue_def geno_map_def default_sidebar_def)

lemma estimation_Inr:
  "estimation m s row = Inr r \<Longrightarrow>
   \<exists>pc. model_cl m row = Inr (pred_cl r) \<and>
     calculate_theoretical_conc (pred_cl r) (Fin (daydose s)) = Inr (theory_conc r) \<and>
     calibrator m (theory_conc r) = Inr pc \<and> pred_conc r = pf_max pc (float_lit 0.1)"
  by (auto simp: estimation_def split: sum.splits)

lemma pf_max_floor_ge:
  "a \<noteq> NaN \<Longrightarrow>
   pf_ge (pf_max a (float_lit 0.1)) (float_lit 0.1) \<and> pf_ge (pf_max a (float_lit 0.1)) (Fin 0.1)"
  unfolding float_lit_0_1 by (cases a) (auto simp: pf_max_def pf_ge_def)

lemma estimation_floor:
  assumes "estimation m s row = Inr r" "calibrator m (theory_conc r) \<noteq> Inr NaN"
  shows "pf_ge (pred_conc r) (float_lit 0.1) \<and> pf_ge (pred_conc r) (Fin 0.1)"
proof -
  obtain pc where "calibrator m (theory_conc r) = Inr pc" "pred_conc r = pf_max pc (float_lit 0.1)"
    using estimation_Inr [OF assms(1)] by blast
  then show ?thesis using assms(2) pf_max_floor_ge [of pc] by auto
qed

lemma app_Metric_pred_conc:
  assumes "app m s pressed = (out, err)"
    and "Metric ''Voriconazole concentration (mg/L)'' k v \<in> set out"
  shows "\<exists>g r. estimation m s (input_row s g) = Inr r \<and> v = pred_conc r"
proof (cases "GenotypingValue (geno_label s)")
  case (Inl e)
  then show ?thesis using assms by (simp add: app_def)
next
  case (Inr g)
  show ?thesis
  proof (cases "estimation m s (input_row s g)")
    case (Inl e)
    then show ?thesis using assms Inr
      by (simp add: app_def estimation_block_def split: if_splits)
  next
    case r: (Inr r)
    have "out = render s r \<or> out = []" using assms(1) Inr r
      by (auto simp: app_def estimation_block_def split: if_splits)
    then have "v = pred_conc r" using assms(2)
      by (auto simp: render_def advisory_def BeforeSteadyState_def NearSteadyState_def
          split: if_splits)
    then show ?thesis using r by blast
  qed
qed

lemma pf_max_floor_values:
  "pf_max NaN (float_lit 0.1) = NaN"
  "pf_max (Fin 3) (float_lit 0.1) = Fin 3"
  "pf_max (Fin (- 3)) (float_lit 0.1) = Fin (3602879701896397 / 36028797018963968)"
  unfolding float_lit_0_1 by (simp_all add: pf_max_def)

lemma estimation_nan_calibrator:
  "estimation (const_models (Inr (Fin 5)) (Inr NaN)) default_sidebar
      (input_row default_sidebar 1) =
     Inr \<lparr>pred_cl = Fin 5, theory_conc = Fin (7505999378950827 / 2251799813685248), pred_conc = NaN\<rparr>"
  by (simp add: estimation_def const_models_def default_sidebar_def
      calculate_theoretical_conc_5_400 pf_max_floor_values)

text \<open>
  C3, as stated, fails when the calibrator returns NaN: \<^verbatim>\<open>max(float(nan), 0.1)\<close> keeps its
  first argument, since \<^verbatim>\<open>0.1 > nan\<close> is False. With the default inputs, a clearance model
  answering 5 and a calibrator answering NaN, the block shows NaN as the concentration.
\<close>

theorem C3_nan_counterexample:
  "in_widget_range default_sidebar \<and>
   estimation (const_models (Inr (Fin 5)) (Inr NaN)) default_sidebar
      (input_row default_sidebar 1) =
     Inr \<lparr>pred_cl = Fin 5, theory_conc = Fin (7505999378950827 / 2251799813685248), pred_conc = NaN\<rparr> \<and>
   fst (app (const_models (Inr (Fin 5)) (Inr NaN)) default_sidebar True) ! 4 =
     Metric ''Voriconazole concentration (mg/L)'' 3 NaN \<and>
   \<not> pf_ge NaN (Fin 0.1) \<and> \<not> pf_ge NaN (float_lit 0.1)"
proof -
  have "fst (app (const_models (Inr (Fin 5)) (Inr NaN)) default_sidebar True) ! 4 =
      Metric ''Voriconazole concentration (mg/L)'' 3 NaN"
    by (simp add: app_def default_GenotypingValue estimation_block_def
        estimation_nan_calibrator render_def)
  moreover have "\<not> pf_ge NaN (Fin 0.1) \<and> \<not> pf_ge NaN (float_lit 0.1)"
    by (simp add: pf_ge_def)
  ultimately show ?thesis
    using default_sidebar_in_range estimation_nan_calibrator by blast
qed

text \<open>
  C3, amended. For every input and every value other than NaN that the calibrator returns,
  the calibrated concentration is at least 0.1: both the value computed by the estimation
  steps and the value shown by the metric of the page. The bound holds for the float that
  the literal \<^verbatim>\<open>0.1\<close> denotes, which is slightly above one tenth, and so for one tenth
  itself.
\<close>

theorem C3_calibrated_floor:
  "(estimation m s row = Inr r \<and> calibrator m (theory_conc r) \<noteq> Inr NaN \<longrightarrow>
      pf_ge (pred_conc r) (float_lit 0.1) \<and> pf_ge (pred_conc r) (Fin 0.1)) \<and>
   (app m s pressed = (out, err) \<and>
    Metric ''Voriconazole concentration (mg/L)'' k v \<in> set out \<and>
    (\<forall>x. calibrator m x \<noteq> Inr NaN) \<longrightarrow> pf_ge v (float_lit 0.1) \<and> pf_ge v (Fin 0.1))"
  using estimation_floor app_Metric_pred_conc by blast

theorem C3_calibrated_floor_witness:
  "estimation (const_models (Inr (Fin 0)) (Inr (Fin (-3)))) default_sidebar
      (input_row default_sidebar 1) =
     Inr \<lparr>pred_cl = Fin 0, theory_conc = Fin (1466015503701333 / 8796093022208),
       pred_conc = Fin (3602879701896397 / 36028797018963968)\<rparr> \<and>
   calibrator (const_models (Inr (Fin 0)) (Inr (Fin (-3))))
      (Fin (1466015503701333 / 8796093022208)) \<noteq> Inr NaN \<and>
   pf_ge (Fin (3602879701896397 / 36028797018963968)) (float_lit 0.1) \<and>
   pf_ge (Fin (3602879701896397 / 36028797018963968)) (Fin 0.1)"
proof -
  let ?m = "const_models (Inr (Fin 0)) (Inr (Fin (-3)))"
  let ?r = "\<lparr>pred_cl = Fin 0, theory_conc = Fin (1466015503701333 / 8796093022208),
      pred_conc = Fin (3602879701896397 / 36028797018963968)\<rparr>"
  have e: "estimation ?m default_sidebar (input_row default_sidebar 1) = Inr ?r"
    by (simp add: estimation_def const_models_def default_sidebar_def
        calculate_theoretical_conc_0_400 pf_max_floor_values)
  have c: "calibrator ?m (theory_conc ?r) \<noteq> Inr NaN"
    by (simp add: const_models_def)
  from C3_calibrated_floor [of ?m default_sidebar "input_row default_sidebar 1" ?r] e c
  have "pf_ge (pred_conc ?r) (float_lit 0.1) \<and> pf_ge (pred_conc ?r) (Fin 0.1)" by blast
  with e c show ?thesis by simp
qed

text \<open>
  C5. For every number of days \<open>t\<close> (the widget gives one in [0, 60]) the advisory is the
  warning \<open>BeforeSteadyState\<close> exactly when \<open>t < 7\<close> and the success message
  \<open>NearSteadyState\<close> otherwise; the two messages differ; 6.999 gives the first and 7.0 the
  second. The advisory is the last element the block renders.
\<close>

theorem C5_advisory_threshold:
  "advisory (Fin t) = (if t < 7 then BeforeSteadyState else NearSteadyState) \<and>
   BeforeSteadyState \<noteq> NearSteadyState \<and>
   advisory (Fin 6.999) = BeforeSteadyState \<and>
   advisory (Fin 7.0) = NearSteadyState \<and>
   last (render s r) = advisory (Fin (time_val s))"
  by (simp add: advisory_def pf_lt_def BeforeSteadyState_def NearSteadyState_def render_def)

section \<open>The feature row\<close>

lemma input_row_eq: "input_row s g =
  [(''CRP'', PyFloat (Fin (crp s))), (''ALB'', PyFloat (Fin (alb s))), (''GenotypingValue'', PyInt g),
   (''Age'', PyFloat (Fin (age s))), (''Sex'', PyInt (sex (sex_input s))),
   (''TBIL'', PyFloat (Fin (tbil s))), (''Weight'', PyFloat (Fin (weight s)))]"
  by (simp add: input_row_def DataFrame_row_def row_dict_def features_cl_def)

lemma DataFrame_row_columns: "map fst (DataFrame_row d cols) = cols"
  by (simp add: DataFrame_row_def comp_def)

lemma distinct_row_dict: "distinct (map fst (row_dict s g))"
  by (simp add: row_dict_def)

lemma map_of_permuted:
  assumes "mset d = mset d'" and "distinct (map fst d')"
  shows "map_of d = map_of d'"
proof -
  have "mset (map fst d) = mset (map fst d')" using assms(1) by simp
  then have "distinct (map fst d)" using assms(2) mset_eq_imp_distinct_iff by blast
  moreover have "set d = set d'" using assms(1) mset_eq_setD by blast
  ultimately show ?thesis using assms(2) map_of_inject_set by blast
qed

lemma DataFrame_row_permuted:
  "mset d = mset (row_dict s g) \<Longrightarrow> DataFrame_row d features_cl = input_row s g"
  using map_of_permuted [OF _ distinct_row_dict, of d s g]
  by (simp add: DataFrame_row_def input_row_def)

lemma app_cong:
  assumes "GenotypingValue (geno_label s) = Inr g"
    and "model_cl m' (input_row s g) = model_cl m (input_row s g)"
    and "calibrator m' = calibrator m"
  shows "app m' s pressed = app m s pressed"
proof -
  have "estimation m' s (input_row s g) = estimation m s (input_row s g)"
    unfolding estimation_def assms(2) assms(3) by (rule refl)
  then show ?thesis using assms(1) by (simp add: app_def estimation_block_def)
qed

text \<open>
  C2. Whatever the inputs, the row handed to the clearance model has exactly the seven
  columns CRP, ALB, GenotypingValue, Age, Sex, TBIL, Weight, in this order, each holding
  the value of its field. The order in which the dict is written does not matter: the frame
  built from any dict has these columns, and the frame built from any permutation of the
  items of the script's dict is the same row. The script consults the clearance model on
  this row only: two clearance models that agree on it give the same run.
\<close>

theorem C2_feature_row_order:
  "map fst (input_row s g) =
     [''CRP'', ''ALB'', ''GenotypingValue'', ''Age'', ''Sex'', ''TBIL'', ''Weight''] \<and>
   length (input_row s g) = 7 \<and>
   map snd (input_row s g) =
     [PyFloat (Fin (crp s)), PyFloat (Fin (alb s)), PyInt g, PyFloat (Fin (age s)),
      PyInt (sex (sex_input s)), PyFloat (Fin (tbil s)), PyFloat (Fin (weight s))] \<and>
   map fst (DataFrame_row d features_cl) =
     [''CRP'', ''ALB'', ''GenotypingValue'', ''Age'', ''Sex'', ''TBIL'', ''Weight''] \<and>
   (mset d = mset (row_dict s g) \<longrightarrow> DataFrame_row d features_cl = input_row s g) \<and>
   (GenotypingValue (geno_label s) = Inr g \<and>
    model_cl m' (input_row s g) = model_cl m (input_row s g) \<and>
    calibrator m' = calibrator m \<longrightarrow> app m' s pressed = app m s pressed)"
proof -
  have "map fst (DataFrame_row d features_cl) =
      [''CRP'', ''ALB'', ''GenotypingValue'', ''Age'', ''Sex'', ''TBIL'', ''Weight'']"
    by (simp add: DataFrame_row_columns) (simp add: features_cl_def)
  moreover have "map fst (input_row s g) =
      [''CRP'', ''ALB'', ''GenotypingValue'', ''Age'', ''Sex'', ''TBIL'', ''Weight'']"
    by (simp add: input_row_eq)
  moreover have "length (input_row s g) = 7"
    by (simp add: input_row_eq)
  moreover have "map snd (input_row s g) =
     [PyFloat (Fin (crp s)), PyFloat (Fin (alb s)), PyInt g, PyFloat (Fin (age s)),
      PyInt (sex (sex_input s)), PyFloat (Fin (tbil s)), PyFloat (Fin (weight s))]"
    by (simp add: input_row_eq)
  ultimately show ?thesis
    using DataFrame_row_permuted [of d s g] app_cong [of s g m' m pressed] by blast
qed

lemma default_input_row: "input_row default_sidebar 1 =
     [(''CRP'', PyFloat (Fin 30)), (''ALB'', PyFloat (Fin 32)), (''GenotypingValue'', PyInt 1),
      (''Age'', PyFloat (Fin 50)), (''Sex'', PyInt 1), (''TBIL'', PyFloat (Fin 12)),
      (''Weight'', PyFloat (Fin 60))]"
  by (simp add: input_row_eq default_sidebar_def sex_def)

theorem C2_feature_row_order_witness:
  "mset (rev (row_dict default_sidebar 1)) = mset (row_dict default_sidebar 1) \<and>
   DataFrame_row (rev (row_dict default_sidebar 1)) features_cl =
     [(''CRP'', PyFloat (Fin 30)), (''ALB'', PyFloat (Fin 32)), (''GenotypingValue'', PyInt 1),
      (''Age'', PyFloat (Fin 50)), (''Sex'', PyInt 1), (''TBIL'', PyFloat (Fin 12)),
      (''Weight'', PyFloat (Fin 60))] \<and>
   GenotypingValue (geno_label default_sidebar) = Inr 1 \<and>
   model_cl (checking_models (Fin 5) (Fin 3)) (input_row default_sidebar 1) =
     model_cl (const_models (Inr (Fin 5)) (Inr (Fin 3))) (input_row default_sidebar 1) \<and>
   calibrator (checking_models (Fin 5) (Fin 3)) =
     calibrator (const_models (Inr (Fin 5)) (Inr (Fin 3))) \<and>
   app (checking_models (Fin 5) (Fin 3)) default_sidebar True =
     app (const_models (Inr (Fin 5)) (Inr (Fin 3))) default_sidebar True"
proof -
  let ?m' = "checking_models (Fin 5) (Fin 3)"
  let ?m = "const_models (Inr (Fin 5)) (Inr (Fin 3))"
  have a: "mset (rev (row_dict default_sidebar 1)) = mset (row_dict default_sidebar 1)"
    by simp
  have b: "model_cl ?m' (input_row default_sidebar 1) = model_cl ?m (input_row default_sidebar 1)"
    by (simp add: checking_models_def const_models_def features_cl_def default_input_row)
  have c: "calibrator ?m' = calibrator ?m"
    by (simp add: checking_models_def const_models_def)
  note t = C2_feature_row_order [of default_sidebar 1 "rev (row_dict default_sidebar 1)" ?m' ?m True]
  have "DataFrame_row (rev (row_dict default_sidebar 1)) features_cl = input_row default_sidebar 1"
    using t a by blast
  then have d: "DataFrame_row (rev (row_dict default_sidebar 1)) features_cl =
     [(''CRP'', PyFloat (Fin 30)), (''ALB'', PyFloat (Fin 32)), (''GenotypingValue'', PyInt 1),
      (''Age'', PyFloat (Fin 50)), (''Sex'', PyInt 1), (''TBIL'', PyFloat (Fin 12)),
      (''Weight'', PyFloat (Fin 60))]"
    by (simp only: default_input_row)
  have e: "app ?m' default_sidebar True = app ?m default_sidebar True"
    using t b c default_GenotypingValue by blast
  show ?thesis
    using a b c d e default_GenotypingValue by blast
qed

section \<open>Categorical encodings\<close>

lemma sex_values: "sex ''Male'' = 1" "sex ''Female'' = 2"
  by (simp_all add: sex_def)

lemma GenotypingValue_values:
  "GenotypingValue ''NM (Normal metabolizer)'' = Inr 1"
  "GenotypingValue ''IM (Intermediate metabolizer)'' = Inr 2"
  "GenotypingValue ''PM (Poor metabolizer)'' = Inr 3"
  by (simp_all add: GenotypingValue_def geno_map_def)

lemma input_row_cells:
  "map_of (input_row s g) ''Sex'' = Some (PyInt (sex (sex_input s)))"
  "map_of (input_row s g) ''GenotypingValue'' = Some (PyInt g)"
  by (simp_all add: input_row_eq)

text \<open>
  C4. Sex is encoded Male to 1 and Female to 2; the metabolizer status is encoded NM to 1,
  IM to 2 and PM to 3 (the labels are those of the select box). For every input the Sex
  and GenotypingValue cells of the feature row hold these codes.
\<close>

theorem C4_categorical_encodings:
  "sex ''Male'' = 1 \<and> sex ''Female'' = 2 \<and>
   GenotypingValue ''NM (Normal metabolizer)'' = Inr 1 \<and>
   GenotypingValue ''IM (Intermediate metabolizer)'' = Inr 2 \<and>
   GenotypingValue ''PM (Poor metabolizer)'' = Inr 3 \<and>
   map_of (input_row s g) ''Sex'' = Some (PyInt (sex (sex_input s))) \<and>
   map_of (input_row s g) ''GenotypingValue'' = Some (PyInt g) \<and>
   map_of (input_row (s\<lparr>sex_input := ''Male''\<rparr>) g) ''Sex'' = Some (PyInt 1) \<and>
   map_of (input_row (s\<lparr>sex_input := ''Female''\<rparr>) g) ''Sex'' = Some (PyInt 2)"
  by (simp add: sex_values GenotypingValue_values input_row_cells)

lemma bij_sex: "bij_betw sex (set sex_options) {1, 2}"
  by (auto simp: bij_betw_def inj_on_def sex_options_def sex_def)

lemma bij_geno: "bij_betw GenotypingValue (set geno_options) {Inr 1, Inr 2, Inr 3}"
  unfolding bij_betw_def inj_on_def geno_options_def
  by (auto simp: GenotypingValue_values)

lemma geno_label_cases:
  assumes "gl \<in> set geno_options" "GenotypingValue gl = Inr g"
  shows "gl = (if g = 1 then ''NM (Normal metabolizer)''
               else if g = 2 then ''IM (Intermediate metabolizer)''
               else ''PM (Poor metabolizer)'')"
  using assms by (auto simp: geno_options_def GenotypingValue_values)

lemma sex_label_cases:
  assumes "si \<in> set sex_options"
  shows "si = (if sex si = 1 then ''Male'' else ''Female'')"
  using assms by (auto simp: sex_options_def sex_def)

text \<open>
  C8. On the options of the two select boxes the encodings are bijections, onto \<open>{1, 2}\<close>
  and onto \<open>{1, 2, 3}\<close>, and the labels can be read back from the feature row: there
  are decoders of the Sex cell and of the GenotypingValue cell that return, for every input
  whose labels are options, the sex label and the metabolizer label the row was built from.
\<close>

theorem C8_encoding_round_trip:
  "bij_betw sex (set sex_options) {1, 2} \<and>
   bij_betw GenotypingValue (set geno_options) {Inr 1, Inr 2, Inr 3} \<and>
   (\<exists>decode_sex decode_geno. \<forall>s g.
      sex_input s \<in> set sex_options \<and> geno_label s \<in> set geno_options \<and>
      GenotypingValue (geno_label s) = Inr g \<longrightarrow>
      decode_sex (map_of (input_row s g) ''Sex'') = sex_input s \<and>
      decode_geno (map_of (input_row s g) ''GenotypingValue'') = geno_label s)"
proof -
  let ?ds = "\<lambda>c. if c = Some (PyInt 1) then ''Male'' else ''Female''"
  let ?dg = "\<lambda>c. if c = Some (PyInt 1) then ''NM (Normal metabolizer)''
                 else if c = Some (PyInt 2) then ''IM (Intermediate metabolizer)''
                 else ''PM (Poor metabolizer)''"
  have "?ds (map_of (input_row s g) ''Sex'') = sex_input s \<and>
      ?dg (map_of (input_row s g) ''GenotypingValue'') = geno_label s"
    if h: "sex_input s \<in> set sex_options \<and> geno_label s \<in> set geno_options \<and>
      GenotypingValue (geno_label s) = Inr g" for s :: sidebar and g
  proof -
    have "sex_input s = (if sex (sex_input s) = 1 then ''Male'' else ''Female'')"
      using h sex_label_cases by blast
    moreover have "geno_label s = (if g = 1 then ''NM (Normal metabolizer)''
               else if g = 2 then ''IM (Intermediate metabolizer)''
               else ''PM (Poor metabolizer)'')"
      using h geno_label_cases by blast
    ultimately show ?thesis by (simp add: input_row_cells)
  qed
  then have dec: "\<forall>s g. sex_input s \<in> set sex_options \<and> geno_label s \<in> set geno_options \<and>
      GenotypingValue (geno_label s) = Inr g \<longrightarrow>
      ?ds (map_of (input_row s g) ''Sex'') = sex_input s \<and>
      ?dg (map_of (input_row s g) ''GenotypingValue'') = geno_label s"
    by blast
  have "\<exists>decode_sex decode_geno. \<forall>s g.
      sex_input s \<in> set sex_options \<and> geno_label s \<in> set geno_options \<and>
      GenotypingValue (geno_label s) = Inr g \<longrightarrow>
      decode_sex (map_of (input_row s g) ''Sex'') = sex_input s \<and>
      decode_geno (map_of (input_row s g) ''GenotypingValue'') = geno_label s"
    by (rule exI [of _ ?ds], rule exI [of _ ?dg]) (rule dec)
  then show ?thesis using bij_sex bij_geno by blast
qed

theorem C8_encoding_round_trip_witness:
  "sex_input default_sidebar \<in> set sex_options \<and>
   geno_label default_sidebar \<in> set geno_options \<and>
   GenotypingValue (geno_label default_sidebar) = Inr 1 \<and>
   GenotypingValue ''PM (Poor metabolizer)'' = Inr 3 \<and>
   (\<exists>decode_sex decode_geno.
      decode_sex (Some (PyInt 1)) = ''Male'' \<and>
      decode_sex (Some (PyInt 2)) = ''Female'' \<and>
      decode_geno (Some (PyInt 1)) = ''NM (Normal metabolizer)'' \<and>
      decode_geno (Some (PyInt 3)) = ''PM (Poor metabolizer)'')"
proof -
  let ?s = "default_sidebar"
  let ?s' = "default_sidebar\<lparr>sex_input := ''Female'', geno_label := ''PM (Poor metabolizer)''\<rparr>"
  have a: "sex_input ?s \<in> set sex_options \<and> geno_label ?s \<in> set geno_options \<and>
      GenotypingValue (geno_label ?s) = Inr 1"
    by (simp add: default_sidebar_def sex_options_def geno_options_def GenotypingValue_values)
  have b: "sex_input ?s' \<in> set sex_options \<and> geno_label ?s' \<in> set geno_options \<and>
      GenotypingValue (geno_label ?s') = Inr 3"
    by (simp add: sex_options_def geno_options_def GenotypingValue_values)
  obtain ds dg where dec: "\<forall>s g. sex_input s \<in> set sex_options \<and>
      geno_label s \<in> set geno_options \<and> GenotypingValue (geno_label s) = Inr g \<longrightarrow>
      ds (map_of (input_row s g) ''Sex'') = sex_input s \<and>
      dg (map_of (input_row s g) ''GenotypingValue'') = geno_label s"
    using C8_encoding_round_trip by blast
  have "ds (map_of (input_row ?s 1) ''Sex'') = sex_input ?s \<and>
      dg (map_of (input_row ?s 1) ''GenotypingValue'') = geno_label ?s"
    using dec a by blast
  then have c: "ds (Some (PyInt 1)) = ''Male'' \<and> dg (Some (PyInt 1)) = ''NM (Normal metabolizer)''"
    by (simp add: input_row_cells sex_def default_sidebar_def)
  have "ds (map_of (input_row ?s' 3) ''Sex'') = sex_input ?s' \<and>
      dg (map_of (input_row ?s' 3) ''GenotypingValue'') = geno_label ?s'"
    using dec b by blast
  then have d: "ds (Some (PyInt 2)) = ''Female'' \<and> dg (Some (PyInt 3)) = ''PM (Poor metabolizer)''"
    by (simp add: input_row_cells sex_def)
  have "\<exists>decode_sex decode_geno.
      decode_sex (Some (PyInt 1)) = ''Male'' \<and>
      decode_sex (Some (PyInt 2)) = ''Female'' \<and>
      decode_geno (Some (PyInt 1)) = ''NM (Normal metabolizer)'' \<and>
      decode_geno (Some (PyInt 3)) = ''PM (Poor metabolizer)''"
    using c d by blast
  then show ?thesis using a GenotypingValue_values(3) by blast
qed

section \<open>What the time and the dose influence\<close>

lemma estimation_daydose_only:
  assumes d: "daydose s' = daydose s"
  shows "estimation m s' row = estimation m s row"
  unfolding estimation_def d by (rule refl)

lemma render_prefix:
  "daydose s' = daydose s \<Longrightarrow> take 9 (render s' r) = take 9 (render s r)"
  by (simp add: render_def)

lemma app_time_val:
  assumes "daydose s' = daydose s" "geno_label s' = geno_label s"
    and "\<And>g. input_row s' g = input_row s g"
  shows "snd (app m s' pressed) = snd (app m s pressed) \<and>
         take 9 (fst (app m s' pressed)) = take 9 (fst (app m s pressed))"
proof (cases "GenotypingValue (geno_label s)")
  case (Inl e)
  then show ?thesis using assms(2) by (simp add: app_def)
next
  case (Inr g)
  have e: "estimation m s' (input_row s' g) = estimation m s (input_row s g)"
    using estimation_daydose_only [OF assms(1)] assms(3) by simp
  show ?thesis
  proof (cases "estimation m s (input_row s g)")
    case (Inl x)
    then show ?thesis using Inr e assms(2) by (simp add: app_def estimation_block_def)
  next
    case r: (Inr r)
    then show ?thesis using Inr e assms(2) render_prefix [OF assms(1), of r]
      by (simp add: app_def estimation_block_def)
  qed
qed

text \<open>
  C6. Two runs whose inputs agree on the dose and on all covariates, and differ at most in
  the time since initiation, hand the same row to the clearance model and compute the same
  clearance, theoretical concentration and calibrated concentration (or raise the same
  exception); the first nine elements the block renders, which hold all three numbers, are
  the same. Only the line showing the time and the advisory after it can differ.
\<close>

theorem C6_time_noninterference:
  "daydose s' = daydose s \<and> age s' = age s \<and> weight s' = weight s \<and> alb s' = alb s \<and>
   crp s' = crp s \<and> tbil s' = tbil s \<and> sex_input s' = sex_input s \<and>
   geno_label s' = geno_label s \<longrightarrow>
   input_row s' g = input_row s g \<and>
   estimation m s' (input_row s' g) = estimation m s (input_row s g) \<and>
   snd (app m s' pressed) = snd (app m s pressed) \<and>
   take 9 (fst (app m s' pressed)) = take 9 (fst (app m s pressed))"
proof
  assume h: "daydose s' = daydose s \<and> age s' = age s \<and> weight s' = weight s \<and>
   alb s' = alb s \<and> crp s' = crp s \<and> tbil s' = tbil s \<and> sex_input s' = sex_input s \<and>
   geno_label s' = geno_label s"
  then have row: "input_row s' g = input_row s g" for g
    by (simp add: input_row_eq)
  moreover have "estimation m s' (input_row s' g) = estimation m s (input_row s g)"
    using h row estimation_daydose_only [of s' s m] by simp
  moreover have "snd (app m s' pressed) = snd (app m s pressed) \<and>
         take 9 (fst (app m s' pressed)) = take 9 (fst (app m s pressed))"
    using h row app_time_val [of s' s m pressed] by blast
  ultimately show "input_row s' g = input_row s g \<and>
   estimation m s' (input_row s' g) = estimation m s (input_row s g) \<and>
   snd (app m s' pressed) = snd (app m s pressed) \<and>
   take 9 (fst (app m s' pressed)) = take 9 (fst (app m s pressed))"
    by blast
qed

theorem C6_time_noninterference_witness:
  "daydose (default_sidebar\<lparr>time_val := 3\<rparr>) = daydose default_sidebar \<and>
   age (default_sidebar\<lparr>time_val := 3\<rparr>) = age default_sidebar \<and>
   weight (default_sidebar\<lparr>time_val := 3\<rparr>) = weight default_sidebar \<and>
   alb (default_sidebar\<lparr>time_val := 3\<rparr>) = alb default_sidebar \<and>
   crp (default_sidebar\<lparr>time_val := 3\<rparr>) = crp default_sidebar \<and>
   tbil (default_sidebar\<lparr>time_val := 3\<rparr>) = tbil default_sidebar \<and>
   sex_input (default_sidebar\<lparr>time_val := 3\<rparr>) = sex_input default_sidebar \<and>
   geno_label (default_sidebar\<lparr>time_val := 3\<rparr>) = geno_label default_sidebar \<and>
   time_val (default_sidebar\<lparr>time_val := 3\<rparr>) \<noteq> time_val default_sidebar \<and>
   estimation (checking_models (Fin 5) (Fin 3)) (default_sidebar\<lparr>time_val := 3\<rparr>)
      (input_row (default_sidebar\<lparr>time_val := 3\<rparr>) 1) =
     estimation (checking_models (Fin 5) (Fin 3)) default_sidebar (input_row default_sidebar 1) \<and>
   snd (app (checking_models (Fin 5) (Fin 3)) (default_sidebar\<lparr>time_val := 3\<rparr>) True) =
     snd (app (checking_models (Fin 5) (Fin 3)) default_sidebar True) \<and>
   take 9 (fst (app (checking_models (Fin 5) (Fin 3)) (default_sidebar\<lparr>time_val := 3\<rparr>) True)) =
     take 9 (fst (app (checking_models (Fin 5) (Fin 3)) default_sidebar True))"
proof -
  let ?s' = "default_sidebar\<lparr>time_val := 3\<rparr>"
  let ?m = "checking_models (Fin 5) (Fin 3)"
  have h: "daydose ?s' = daydose default_sidebar \<and> age ?s' = age default_sidebar \<and>
      weight ?s' = weight default_sidebar \<and> alb ?s' = alb default_sidebar \<and>
      crp ?s' = crp default_sidebar \<and> tbil ?s' = tbil default_sidebar \<and>
      sex_input ?s' = sex_input default_sidebar \<and> geno_label ?s' = geno_label default_sidebar"
    by simp
  have n: "time_val ?s' \<noteq> time_val default_sidebar"
    by (simp add: default_sidebar_def)
  show ?thesis
    using C6_time_noninterference [of ?s' default_sidebar 1 ?m True] h n by blast
qed

text \<open>
  C7. Two runs whose inputs agree on the seven covariates CRP, ALB, metabolizer status,
  age, sex, TBIL and weight hand the same row to the clearance model, whatever their doses
  are, so the model answers the same; when both runs return, their predicted clearances
  are equal. The clearance is the model's answer on the row, and the dose enters in the
  back-calculation of the theoretical concentration.
\<close>

theorem C7_dose_not_a_feature:
  "crp s' = crp s \<and> alb s' = alb s \<and> geno_label s' = geno_label s \<and> age s' = age s \<and>
   sex_input s' = sex_input s \<and> tbil s' = tbil s \<and> weight s' = weight s \<longrightarrow>
   GenotypingValue (geno_label s') = GenotypingValue (geno_label s) \<and>
   input_row s' g = input_row s g \<and>
   model_cl m (input_row s' g) = model_cl m (input_row s g) \<and>
   (estimation m s' (input_row s' g) = Inr r' \<and> estimation m s (input_row s g) = Inr r \<longrightarrow>
      pred_cl r' = pred_cl r \<and>
      model_cl m (input_row s g) = Inr (pred_cl r) \<and>
      calculate_theoretical_conc (pred_cl r) (Fin (daydose s)) = Inr (theory_conc r) \<and>
      calculate_theoretical_conc (pred_cl r) (Fin (daydose s')) = Inr (theory_conc r'))"
proof
  assume h: "crp s' = crp s \<and> alb s' = alb s \<and> geno_label s' = geno_label s \<and>
   age s' = age s \<and> sex_input s' = sex_input s \<and> tbil s' = tbil s \<and> weight s' = weight s"
  then have row: "input_row s' g = input_row s g"
    by (simp add: input_row_eq)
  have "pred_cl r' = pred_cl r \<and>
      model_cl m (input_row s g) = Inr (pred_cl r) \<and>
      calculate_theoretical_conc (pred_cl r) (Fin (daydose s)) = Inr (theory_conc r) \<and>
      calculate_theoretical_conc (pred_cl r) (Fin (daydose s')) = Inr (theory_conc r')"
    if "estimation m s' (input_row s' g) = Inr r' \<and> estimation m s (input_row s g) = Inr r"
    using that estimation_Inr [of m s' "input_row s g" r'] estimation_Inr [of m s "input_row s g" r] row
    by auto
  then show "GenotypingValue (geno_label s') = GenotypingValue (geno_label s) \<and>
   input_row s' g = input_row s g \<and>
   model_cl m (input_row s' g) = model_cl m (input_row s g) \<and>
   (estimation m s' (input_row s' g) = Inr r' \<and> estimation m s (input_row s g) = Inr r \<longrightarrow>
      pred_cl r' = pred_cl r \<and>
      model_cl m (input_row s g) = Inr (pred_cl r) \<and>
      calculate_theoretical_conc (pred_cl r) (Fin (daydose s)) = Inr (theory_conc r) \<and>
      calculate_theoretical_conc (pred_cl r) (Fin (daydose s')) = Inr (theory_conc r'))"
    using h row by simp
qed

theorem C7_dose_not_a_feature_witness:
  "crp (default_sidebar\<lparr>daydose := 200\<rparr>) = crp default_sidebar \<and>
   alb (default_sidebar\<lparr>daydose := 200\<rparr>) = alb default_sidebar \<and>
   geno_label (default_sidebar\<lparr>daydose := 200\<rparr>) = geno_label default_sidebar \<and>
   age (default_sidebar\<lparr>daydose := 200\<rparr>) = age default_sidebar \<and>
   sex_input (default_sidebar\<lparr>daydose := 200\<rparr>) = sex_input default_sidebar \<and>
   tbil (default_sidebar\<lparr>daydose := 200\<rparr>) = tbil default_sidebar \<and>
   weight (default_sidebar\<lparr>daydose := 200\<rparr>) = weight default_sidebar \<and>
   daydose (default_sidebar\<lparr>daydose := 200\<rparr>) \<noteq> daydose default_sidebar \<and>
   input_row (default_sidebar\<lparr>daydose := 200\<rparr>) 1 = input_row default_sidebar 1 \<and>
   estimation (checking_models (Fin 5) (Fin 3)) (default_sidebar\<lparr>daydose := 200\<rparr>)
      (input_row (default_sidebar\<lparr>daydose := 200\<rparr>) 1) =
     Inr \<lparr>pred_cl = Fin 5, theory_conc = Fin (7505999378950827 / 4503599627370496), pred_conc = Fin 3\<rparr> \<and>
   estimation (checking_models (Fin 5) (Fin 3)) default_sidebar (input_row default_sidebar 1) =
     Inr \<lparr>pred_cl = Fin 5, theory_conc = Fin (7505999378950827 / 2251799813685248), pred_conc = Fin 3\<rparr>"
proof -
  let ?s' = "default_sidebar\<lparr>daydose := 200\<rparr>"
  let ?m = "checking_models (Fin 5) (Fin 3)"
  have h: "crp ?s' = crp default_sidebar \<and> alb ?s' = alb default_sidebar \<and>
      geno_label ?s' = geno_label default_sidebar \<and> age ?s' = age default_sidebar \<and>
      sex_input ?s' = sex_input default_sidebar \<and> tbil ?s' = tbil default_sidebar \<and>
      weight ?s' = weight default_sidebar"
    by simp
  have n: "daydose ?s' \<noteq> daydose default_sidebar"
    by (simp add: default_sidebar_def)
  have row: "input_row ?s' 1 = input_row default_sidebar 1"
    using C7_dose_not_a_feature [of ?s' default_sidebar 1 ?m] h by blast
  have e': "estimation ?m ?s' (input_row ?s' 1) =
      Inr \<lparr>pred_cl = Fin 5, theory_conc = Fin (7505999378950827 / 4503599627370496), pred_conc = Fin 3\<rparr>"
    unfolding row default_input_row
    by (simp add: estimation_def checking_models_def features_cl_def
        calculate_theoretical_conc_5_200 pf_max_floor_values)
  have e: "estimation ?m default_sidebar (input_row default_sidebar 1) =
      Inr \<lparr>pred_cl = Fin 5, theory_conc = Fin (7505999378950827 / 2251799813685248), pred_conc = Fin 3\<rparr>"
    unfolding default_input_row
    by (simp add: estimation_def checking_models_def features_cl_def
        calculate_theoretical_conc_5_400 pf_max_floor_values default_sidebar_def)
  show ?thesis using h n row e' e by blast
qed

section \<open>Failure of a stage\<close>

lemma app_outcome:
  assumes "app m s pressed = (out, err)"
  shows "out = [] \<or> (\<exists>g r. estimation m s (input_row s g) = Inr r \<and> out = render s r \<and> err = None)"
proof (cases "GenotypingValue (geno_label s)")
  case (Inl e)
  then show ?thesis using assms by (simp add: app_def)
next
  case (Inr g)
  show ?thesis
  proof (cases "estimation m s (input_row s g)")
    case (Inl e)
    then show ?thesis using assms Inr
      by (auto simp: app_def estimation_block_def split: if_splits)
  next
    case r: (Inr r)
    then show ?thesis using assms Inr
      by (auto simp: app_def estimation_block_def split: if_splits)
  qed
qed

lemma estimation_block_error:
  assumes "estimation_block m s row = (out, Some e)"
  shows "out = [] \<and> (model_cl m row = Inl e \<or>
     (\<exists>cl tc. model_cl m row = Inr cl \<and>
        calculate_theoretical_conc cl (Fin (daydose s)) = Inr tc \<and> calibrator m tc = Inl e))"
proof -
  have e: "estimation m s row = Inl e" and "out = []"
    using assms by (auto simp: estimation_block_def split: sum.splits)
  moreover have "model_cl m row = Inl e \<or>
     (\<exists>cl tc. model_cl m row = Inr cl \<and>
        calculate_theoretical_conc cl (Fin (daydose s)) = Inr tc \<and> calibrator m tc = Inl e)"
  proof (cases "model_cl m row")
    case (Inl x)
    then show ?thesis using e by (simp add: estimation_def)
  next
    case (Inr cl)
    obtain tc where tc: "calculate_theoretical_conc cl (Fin (daydose s)) = Inr tc"
      using calculate_theoretical_conc_total by blast
    then have "calibrator m tc = Inl e"
      using e Inr by (simp add: estimation_def split: sum.splits)
    then show ?thesis using Inr tc by blast
  qed
  ultimately show ?thesis by blast
qed

lemma estimation_block_model_cl_raises:
  "model_cl m row = Inl e \<Longrightarrow> estimation_block m s row = ([], Some e)"
  by (simp add: estimation_block_def estimation_def)

lemma estimation_block_calibrator_raises:
  "model_cl m row = Inr cl \<Longrightarrow> calculate_theoretical_conc cl (Fin (daydose s)) = Inr tc \<Longrightarrow>
   calibrator m tc = Inl e \<Longrightarrow> estimation_block m s row = ([], Some e)"
  by (simp add: estimation_block_def estimation_def)

lemma app_error_renders_nothing:
  "app m s pressed = (out, Some e) \<Longrightarrow> out = []"
  using app_outcome [of m s pressed out "Some e"] by auto

lemma app_Metric_cl:
  assumes "app m s pressed = (out, err)" "Metric ''Estimated CL/F (L/h)'' k v \<in> set out"
  shows "err = None \<and> (\<exists>w. Metric ''Voriconazole concentration (mg/L)'' 3 w \<in> set out)"
proof -
  obtain g r where "out = render s r" "err = None"
    using app_outcome [OF assms(1)] assms(2) by auto
  moreover have "Metric ''Voriconazole concentration (mg/L)'' 3 (pred_conc r) \<in> set (render s r)"
    by (simp add: render_def)
  ultimately show ?thesis by blast
qed

text \<open>
  C9. If the clearance model raises, or the calibrator raises, the block ends with that
  exception and has rendered nothing. Conversely an exception that ends the block is the
  one raised by the clearance model or by the calibrator (the back-calculation between
  them never raises), and nothing has been rendered. For the whole script: a run that ends
  with an exception has rendered nothing of the block, and whenever the clearance metric
  is shown the run ended without exception and the concentration metric is shown too.
\<close>

theorem C9_stage_failure_aborts:
  "(model_cl m row = Inl e \<longrightarrow> estimation_block m s row = ([], Some e)) \<and>
   (model_cl m row = Inr cl \<and> calculate_theoretical_conc cl (Fin (daydose s)) = Inr tc \<and>
    calibrator m tc = Inl e \<longrightarrow> estimation_block m s row = ([], Some e)) \<and>
   (estimation_block m s row = (out, Some e) \<longrightarrow>
      out = [] \<and> (model_cl m row = Inl e \<or>
        (\<exists>cl tc. model_cl m row = Inr cl \<and>
           calculate_theoretical_conc cl (Fin (daydose s)) = Inr tc \<and> calibrator m tc = Inl e))) \<and>
   (app m s pressed = (out', Some e) \<longrightarrow> out' = []) \<and>
   (app m s pressed = (out', err) \<and> Metric ''Estimated CL/F (L/h)'' k v \<in> set out' \<longrightarrow>
      err = None \<and> (\<exists>w. Metric ''Voriconazole concentration (mg/L)'' 3 w \<in> set out'))"
  using estimation_block_model_cl_raises [of m row e s]
    estimation_block_calibrator_raises [of m row cl s tc e]
    estimation_block_error [of m s row out e]
    app_error_renders_nothing [of m s pressed out' e]
    app_Metric_cl [of m s pressed out' err k v]
  by blast

theorem C9_stage_failure_aborts_witness:
  "model_cl (const_models (Inl (ModelException ''clearance model'')) (Inr (Fin 3)))
      (input_row default_sidebar 1) = Inl (ModelException ''clearance model'') \<and>
   estimation_block (const_models (Inl (ModelException ''clearance model'')) (Inr (Fin 3)))
      default_sidebar (input_row default_sidebar 1) =
     ([], Some (ModelException ''clearance model'')) \<and>
   model_cl (const_models (Inr (Fin 5)) (Inl (ModelException ''calibrator'')))
      (input_row default_sidebar 1) = Inr (Fin 5) \<and>
   calculate_theoretical_conc (Fin 5) (Fin (daydose default_sidebar)) = Inr (Fin (7505999378950827 / 2251799813685248)) \<and>
   calibrator (const_models (Inr (Fin 5)) (Inl (ModelException ''calibrator'')))
      (Fin (7505999378950827 / 2251799813685248)) = Inl (ModelException ''calibrator'') \<and>
   estimation_block (const_models (Inr (Fin 5)) (Inl (ModelException ''calibrator'')))
      default_sidebar (input_row default_sidebar 1) =
     ([], Some (ModelException ''calibrator'')) \<and>
   app (const_models (Inr (Fin 5)) (Inl (ModelException ''calibrator''))) default_sidebar True =
     ([], Some (ModelException ''calibrator'')) \<and>
   Metric ''Estimated CL/F (L/h)'' 3 (Fin 5) \<in>
     set (fst (app (const_models (Inr (Fin 5)) (Inr (Fin 3))) default_sidebar True)) \<and>
   snd (app (const_models (Inr (Fin 5)) (Inr (Fin 3))) default_sidebar True) = None \<and>
   (\<exists>w. Metric ''Voriconazole concentration (mg/L)'' 3 w \<in>
     set (fst (app (const_models (Inr (Fin 5)) (Inr (Fin 3))) default_sidebar True)))"
proof -
  let ?e1 = "ModelException ''clearance model''"
  let ?e2 = "ModelException ''calibrator''"
  let ?m1 = "const_models (Inl ?e1) (Inr (Fin 3))"
  let ?m2 = "const_models (Inr (Fin 5)) (Inl ?e2)"
  let ?m3 = "const_models (Inr (Fin 5)) (Inr (Fin 3))"
  let ?row = "input_row default_sidebar 1"
  have a1: "model_cl ?m1 ?row = Inl ?e1"
    by (simp add: const_models_def)
  have b1: "estimation_block ?m1 default_sidebar ?row = ([], Some ?e1)"
    using C9_stage_failure_aborts [where m = ?m1 and row = ?row and e = ?e1 and s = default_sidebar] a1
    by blast
  have a2: "model_cl ?m2 ?row = Inr (Fin 5)"
    by (simp add: const_models_def)
  have a3: "calculate_theoretical_conc (Fin 5) (Fin (daydose default_sidebar)) =
      Inr (Fin (7505999378950827 / 2251799813685248))"
    by (simp add: calculate_theoretical_conc_5_400 default_sidebar_def)
  have a4: "calibrator ?m2 (Fin (7505999378950827 / 2251799813685248)) = Inl ?e2"
    by (simp add: const_models_def)
  have b2: "estimation_block ?m2 default_sidebar ?row = ([], Some ?e2)"
    using C9_stage_failure_aborts [where m = ?m2 and row = ?row and e = ?e2 and s = default_sidebar
        and cl = "Fin 5" and tc = "Fin (7505999378950827 / 2251799813685248)"] a2 a3 a4
    by blast
  have b3: "app ?m2 default_sidebar True = ([], Some ?e2)"
    using b2 by (simp add: app_def default_GenotypingValue)
  obtain out err where o: "app ?m3 default_sidebar True = (out, err)"
    by (cases "app ?m3 default_sidebar True") blast
  have "estimation ?m3 default_sidebar ?row =
      Inr \<lparr>pred_cl = Fin 5, theory_conc = Fin (7505999378950827 / 2251799813685248), pred_conc = Fin 3\<rparr>"
    using a3 by (simp add: estimation_def const_models_def pf_max_floor_values)
  then have "out = render default_sidebar
      \<lparr>pred_cl = Fin 5, theory_conc = Fin (7505999378950827 / 2251799813685248), pred_conc = Fin 3\<rparr>"
    using o by (simp add: app_def default_GenotypingValue estimation_block_def)
  then have a5: "Metric ''Estimated CL/F (L/h)'' 3 (Fin 5) \<in> set out"
    by (simp add: render_def)
  have b4: "err = None \<and> (\<exists>w. Metric ''Voriconazole concentration (mg/L)'' 3 w \<in> set out)"
    using C9_stage_failure_aborts [where m = ?m3 and s = default_sidebar and pressed = True and out' = out
        and err = err and k = 3 and v = "Fin 5"] o a5
    by blast
  have "Metric ''Estimated CL/F (L/h)'' 3 (Fin 5) \<in> set (fst (app ?m3 default_sidebar True)) \<and>
      snd (app ?m3 default_sidebar True) = None \<and>
      (\<exists>w. Metric ''Voriconazole concentration (mg/L)'' 3 w \<in>
         set (fst (app ?m3 default_sidebar True)))"
    using a5 b4 o by simp
  then show ?thesis using a1 b1 a2 a3 a4 b2 b3 by blast
qed

end
